theory Spec2Isabelle
  imports Complex_Main "HOL-Library.Word" "HOL-Library.Char_ord" "HOL-Library.List_Lexorder"
begin

unbundle bit_operations_syntax

section \<open>Python values\<close>

text \<open>
  The client of \<^verbatim>\<open>gwn_manager_api.py\<close> handles loosely typed values: whatever
  \<^verbatim>\<open>response.json()\<close> returns, plus the dictionaries it builds itself. They are
  modelled by one datatype. \<open>JNull\<close> is Python's \<^verbatim>\<open>None\<close>; a \<open>JObject\<close> is a
  \<^verbatim>\<open>dict\<close> with string keys, its entries in insertion order (the keys of a dict are
  distinct; a lookup takes the first entry with the key). JSON numbers are the integers;
  floats are not modelled. A Python \<^verbatim>\<open>str\<close> is a \<open>string\<close> whose characters are the
  code points 0 to 255.
\<close>

datatype json =
    JNull
  | JBool bool
  | JInt int
  | JStr string
  | JList "json list"
  | JObject "(string \<times> json) list"

text \<open>Exceptions that leave the functions of \<^verbatim>\<open>GWNClient\<close>. The first is the
  \<^verbatim>\<open>Exception("Could not authenticate")\<close> of the source; the others are Python's own.\<close>

datatype exn =
    CouldNotAuthenticate
  | TypeError
  | AttributeError
  | KeyError
  | IndexError
  | JSONDecodeError

text \<open>Truth value of an object, as \<^verbatim>\<open>if x:\<close> and \<^verbatim>\<open>not x\<close> test it.\<close>

fun py_truthy :: "json \<Rightarrow> bool" where
  "py_truthy JNull = False"
| "py_truthy (JBool b) = b"
| "py_truthy (JInt n) = (n \<noteq> 0)"
| "py_truthy (JStr s) = (s \<noteq> [])"
| "py_truthy (JList xs) = (xs \<noteq> [])"
| "py_truthy (JObject kvs) = (kvs \<noteq> [])"

text \<open>\<^verbatim>\<open>d.get(k, default)\<close>: only a dict has the method.\<close>

definition dict_get :: "(string \<times> json) list \<Rightarrow> string \<Rightarrow> json \<Rightarrow> json" where
  "dict_get kvs k d = (case map_of kvs k of Some v \<Rightarrow> v | None \<Rightarrow> d)"

fun py_get :: "json \<Rightarrow> string \<Rightarrow> json \<Rightarrow> exn + json" where
  "py_get (JObject kvs) k d = Inr (dict_get kvs k d)"
| "py_get _ k d = Inl AttributeError"

text \<open>\<^verbatim>\<open>x[k]\<close> with a string key.\<close>

fun py_getitem :: "json \<Rightarrow> string \<Rightarrow> exn + json" where
  "py_getitem (JObject kvs) k = (case map_of kvs k of Some v \<Rightarrow> Inr v | None \<Rightarrow> Inl KeyError)"
| "py_getitem _ k = Inl TypeError"

text \<open>\<^verbatim>\<open>x[0]\<close>. A dict parsed from JSON has no key \<^verbatim>\<open>0\<close>.\<close>

fun py_first :: "json \<Rightarrow> exn + json" where
  "py_first (JList []) = Inl IndexError"
| "py_first (JList (x # xs)) = Inr x"
| "py_first (JStr []) = Inl IndexError"
| "py_first (JStr (c # cs)) = Inr (JStr [c])"
| "py_first (JObject kvs) = Inl KeyError"
| "py_first _ = Inl TypeError"

text \<open>The items a \<^verbatim>\<open>for\<close> loop visits.\<close>

fun py_iter :: "json \<Rightarrow> exn + json list" where
  "py_iter (JList xs) = Inr xs"
| "py_iter (JStr s) = Inr (map (\<lambda>c. JStr [c]) s)"
| "py_iter (JObject kvs) = Inr (map (\<lambda>kv. JStr (fst kv)) kvs)"
| "py_iter _ = Inl TypeError"

text \<open>A value used as a dict key must be hashable, and \<^verbatim>\<open>True == 1\<close>,
  \<^verbatim>\<open>False == 0\<close> are the same key.\<close>

fun py_key :: "json \<Rightarrow> exn + json" where
  "py_key (JList xs) = Inl TypeError"
| "py_key (JObject kvs) = Inl TypeError"
| "py_key (JBool b) = Inr (JInt (if b then 1 else 0))"
| "py_key v = Inr v"

text \<open>The number added by \<^verbatim>\<open>time.time() + x\<close>; other operands raise TypeError.\<close>

fun py_num :: "json \<Rightarrow> int option" where
  "py_num (JInt n) = Some n"
| "py_num (JBool b) = Some (if b then 1 else 0)"
| "py_num _ = None"

text \<open>\<^verbatim>\<open>int(x)\<close> of a number truncates towards zero.\<close>

definition py_int :: "rat \<Rightarrow> int" where
  "py_int x = (if 0 \<le> x then \<lfloor>x\<rfloor> else \<lceil>x\<rceil>)"

subsection \<open>Strings\<close>

definition hex_digit :: "nat \<Rightarrow> char" where
  "hex_digit n = ''0123456789abcdef'' ! n"

definition hex2 :: "nat \<Rightarrow> string" where
  "hex2 n = [hex_digit (n div 16 mod 16), hex_digit (n mod 16)]"

fun digits10 :: "nat \<Rightarrow> string" where
  "digits10 n = (if n < 10 then [hex_digit n] else digits10 (n div 10) @ [hex_digit (n mod 10)])"

declare digits10.simps [simp del]

text \<open>\<^verbatim>\<open>str(i)\<close> of an integer.\<close>

definition str_int :: "int \<Rightarrow> string" where
  "str_int i = (if i < 0 then CHR ''-'' # digits10 (nat (- i)) else digits10 (nat i))"

text \<open>\<^verbatim>\<open>sep.join(xs)\<close>.\<close>

fun join :: "string \<Rightarrow> string list \<Rightarrow> string" where
  "join sep [] = []"
| "join sep [x] = x"
| "join sep (x # y # ys) = x @ sep @ join sep (y # ys)"

text \<open>\<^verbatim>\<open>repr\<close> of a string: single quotes unless the string holds a single quote and
  no double quote; backslash escapes for the quote, the backslash, tab, newline and
  carriage return; \<^verbatim>\<open>\xhh\<close> for the other characters that are not printable.\<close>

definition printable :: "char \<Rightarrow> bool" where
  "printable c = (let n = (of_char c :: nat) in
     (32 \<le> n \<and> n < 127) \<or> (161 \<le> n \<and> n \<noteq> 173))"

definition repr_char :: "char \<Rightarrow> char \<Rightarrow> string" where
  "repr_char quote c =
     (if c = quote \<or> c = CHR 0x5C then [CHR 0x5C, c]
      else if c = CHR 0x09 then [CHR 0x5C, CHR ''t'']
      else if c = CHR 0x0A then [CHR 0x5C, CHR ''n'']
      else if c = CHR 0x0D then [CHR 0x5C, CHR ''r'']
      else if printable c then [c]
      else [CHR 0x5C, CHR ''x''] @ hex2 (of_char c))"

definition repr_str :: "string \<Rightarrow> string" where
  "repr_str s =
     (let quote = (if CHR 0x27 \<in> set s \<and> CHR 0x22 \<notin> set s then CHR 0x22 else CHR 0x27)
      in [quote] @ concat (map (repr_char quote) s) @ [quote])"

fun py_repr :: "json \<Rightarrow> string" where
  "py_repr JNull = ''None''"
| "py_repr (JBool b) = (if b then ''True'' else ''False'')"
| "py_repr (JInt n) = str_int n"
| "py_repr (JStr s) = repr_str s"
| "py_repr (JList xs) = ''['' @ join '', '' (map py_repr xs) @ '']''"
| "py_repr (JObject kvs) =
     ''{'' @ join '', '' (map (\<lambda>kv. repr_str (fst kv) @ '': '' @ py_repr (snd kv)) kvs) @ ''}''"

text \<open>\<^verbatim>\<open>str(x)\<close>, which an f-string applies to the value it renders.\<close>

fun py_str :: "json \<Rightarrow> string" where
  "py_str (JStr s) = s"
| "py_str v = py_repr v"

text \<open>\<^verbatim>\<open>json.dumps(x, separators=(',', ':'))\<close>: no whitespace, keys in the order of the
  dict, and (\<^verbatim>\<open>ensure_ascii\<close> is on) every character outside the range space to tilde
  escaped.\<close>

definition json_escape_char :: "char \<Rightarrow> string" where
  "json_escape_char c =
     (if c = CHR 0x22 then [CHR 0x5C, CHR 0x22]
      else if c = CHR 0x5C then [CHR 0x5C, CHR 0x5C]
      else if c = CHR 0x0A then [CHR 0x5C, CHR ''n'']
      else if c = CHR 0x0D then [CHR 0x5C, CHR ''r'']
      else if c = CHR 0x09 then [CHR 0x5C, CHR ''t'']
      else if c = CHR 0x08 then [CHR 0x5C, CHR ''b'']
      else if c = CHR 0x0C then [CHR 0x5C, CHR ''f'']
      else if 32 \<le> (of_char c :: nat) \<and> (of_char c :: nat) < 127 then [c]
      else [CHR 0x5C, CHR ''u'', CHR ''0'', CHR ''0''] @ hex2 (of_char c))"

definition json_string :: "string \<Rightarrow> string" where
  "json_string s = [CHR 0x22] @ concat (map json_escape_char s) @ [CHR 0x22]"

fun json_dumps :: "json \<Rightarrow> string" where
  "json_dumps JNull = ''null''"
| "json_dumps (JBool b) = (if b then ''true'' else ''false'')"
| "json_dumps (JInt n) = str_int n"
| "json_dumps (JStr s) = json_string s"
| "json_dumps (JList xs) = ''['' @ join '','' (map json_dumps xs) @ '']''"
| "json_dumps (JObject kvs) =
     ''{'' @ join '','' (map (\<lambda>kv. json_string (fst kv) @ '':'' @ json_dumps (snd kv)) kvs) @ ''}''"

subsection \<open>UTF-8 and SHA-256\<close>

type_synonym byte = "8 word"
type_synonym u32 = "32 word"

text \<open>\<^verbatim>\<open>s.encode('utf-8')\<close> for code points below 256: one byte below 128, two above.\<close>

definition utf8_char :: "char \<Rightarrow> byte list" where
  "utf8_char c =
     (let b = (of_char c :: byte)
      in if b < 0x80 then [b] else [0xC0 OR drop_bit 6 b, 0x80 OR (b AND 0x3F)])"

definition utf8 :: "string \<Rightarrow> byte list" where
  "utf8 s = concat (map utf8_char s)"

text \<open>\<^verbatim>\<open>hashlib.sha256(m).hexdigest()\<close>, after FIPS 180-4.\<close>

text \<open>A 32-bit constant, written as its upper and lower 16 bits.\<close>

definition w32 :: "nat \<Rightarrow> nat \<Rightarrow> u32" where
  "w32 hi lo = of_nat (hi * 65536 + lo)"

definition K256 :: "u32 list" where
  "K256 =
   [w32 0x428a 0x2f98, w32 0x7137 0x4491, w32 0xb5c0 0xfbcf, w32 0xe9b5 0xdba5,
    w32 0x3956 0xc25b, w32 0x59f1 0x11f1, w32 0x923f 0x82a4, w32 0xab1c 0x5ed5,
    w32 0xd807 0xaa98, w32 0x1283 0x5b01, w32 0x2431 0x85be, w32 0x550c 0x7dc3,
    w32 0x72be 0x5d74, w32 0x80de 0xb1fe, w32 0x9bdc 0x06a7, w32 0xc19b 0xf174,
    w32 0xe49b 0x69c1, w32 0xefbe 0x4786, w32 0x0fc1 0x9dc6, w32 0x240c 0xa1cc,
    w32 0x2de9 0x2c6f, w32 0x4a74 0x84aa, w32 0x5cb0 0xa9dc, w32 0x76f9 0x88da,
    w32 0x983e 0x5152, w32 0xa831 0xc66d, w32 0xb003 0x27c8, w32 0xbf59 0x7fc7,
    w32 0xc6e0 0x0bf3, w32 0xd5a7 0x9147, w32 0x06ca 0x6351, w32 0x1429 0x2967,
    w32 0x27b7 0x0a85, w32 0x2e1b 0x2138, w32 0x4d2c 0x6dfc, w32 0x5338 0x0d13,
    w32 0x650a 0x7354, w32 0x766a 0x0abb, w32 0x81c2 0xc92e, w32 0x9272 0x2c85,
    w32 0xa2bf 0xe8a1, w32 0xa81a 0x664b, w32 0xc24b 0x8b70, w32 0xc76c 0x51a3,
    w32 0xd192 0xe819, w32 0xd699 0x0624, w32 0xf40e 0x3585, w32 0x106a 0xa070,
    w32 0x19a4 0xc116, w32 0x1e37 0x6c08, w32 0x2748 0x774c, w32 0x34b0 0xbcb5,
    w32 0x391c 0x0cb3, w32 0x4ed8 0xaa4a, w32 0x5b9c 0xca4f, w32 0x682e 0x6ff3,
    w32 0x748f 0x82ee, w32 0x78a5 0x636f, w32 0x84c8 0x7814, w32 0x8cc7 0x0208,
    w32 0x90be 0xfffa, w32 0xa450 0x6ceb, w32 0xbef9 0xa3f7, w32 0xc671 0x78f2]"

type_synonym sha_state = "u32 \<times> u32 \<times> u32 \<times> u32 \<times> u32 \<times> u32 \<times> u32 \<times> u32"

definition H256 :: sha_state where
  "H256 = (w32 0x6a09 0xe667, w32 0xbb67 0xae85, w32 0x3c6e 0xf372, w32 0xa54f 0xf53a,
           w32 0x510e 0x527f, w32 0x9b05 0x688c, w32 0x1f83 0xd9ab, w32 0x5be0 0xcd19)"

definition rotr :: "nat \<Rightarrow> u32 \<Rightarrow> u32" where
  "rotr n x = drop_bit n x OR push_bit (32 - n) x"

definition Ch :: "u32 \<Rightarrow> u32 \<Rightarrow> u32 \<Rightarrow> u32" where
  "Ch x y z = (x AND y) XOR (NOT x AND z)"

definition Maj :: "u32 \<Rightarrow> u32 \<Rightarrow> u32 \<Rightarrow> u32" where
  "Maj x y z = (x AND y) XOR (x AND z) XOR (y AND z)"

definition Sigma0 :: "u32 \<Rightarrow> u32" where
  "Sigma0 x = rotr 2 x XOR rotr 13 x XOR rotr 22 x"

definition Sigma1 :: "u32 \<Rightarrow> u32" where
  "Sigma1 x = rotr 6 x XOR rotr 11 x XOR rotr 25 x"

definition sigma0 :: "u32 \<Rightarrow> u32" where
  "sigma0 x = rotr 7 x XOR rotr 18 x XOR drop_bit 3 x"

definition sigma1 :: "u32 \<Rightarrow> u32" where
  "sigma1 x = rotr 17 x XOR rotr 19 x XOR drop_bit 10 x"

text \<open>The message schedule; the list holds the words computed so far, newest first.\<close>

fun schedule :: "nat \<Rightarrow> u32 list \<Rightarrow> u32 list" where
  "schedule 0 ws = ws"
| "schedule (Suc n) ws =
     schedule n ((sigma1 (ws ! 1) + ws ! 6 + sigma0 (ws ! 14) + ws ! 15) # ws)"

definition round1 :: "sha_state \<Rightarrow> u32 \<times> u32 \<Rightarrow> sha_state" where
  "round1 st kw =
     (case st of (a, b, c, d, e, f, g, h) \<Rightarrow>
        (let t1 = h + Sigma1 e + Ch e f g + fst kw + snd kw;
             t2 = Sigma0 a + Maj a b c
         in (t1 + t2, a, b, c, d + t1, e, f, g)))"

definition add_state :: "sha_state \<Rightarrow> sha_state \<Rightarrow> sha_state" where
  "add_state s t =
     (case s of (a, b, c, d, e, f, g, h) \<Rightarrow>
      case t of (a', b', c', d', e', f', g', h') \<Rightarrow>
        (a + a', b + b', c + c', d + d', e + e', f + f', g + g', h + h'))"

definition be32 :: "byte list \<Rightarrow> u32" where
  "be32 bs = foldl (\<lambda>acc b. push_bit 8 acc OR ucast b) 0 bs"

fun words_of :: "byte list \<Rightarrow> u32 list" where
  "words_of (a # b # c # d # rest) = be32 [a, b, c, d] # words_of rest"
| "words_of rest = []"

definition compress :: "sha_state \<Rightarrow> byte list \<Rightarrow> sha_state" where
  "compress st block =
     add_state st (foldl round1 st (zip K256 (rev (schedule 48 (rev (words_of block))))))"

fun blocks :: "nat \<Rightarrow> sha_state \<Rightarrow> byte list \<Rightarrow> sha_state" where
  "blocks 0 st bs = st"
| "blocks (Suc n) st bs = blocks n (compress st (take 64 bs)) (drop 64 bs)"

definition be_bytes :: "64 word \<Rightarrow> byte list" where
  "be_bytes w = map (\<lambda>i. ucast (drop_bit (8 * i) w)) [7, 6, 5, 4, 3, 2, 1, 0]"

definition pad :: "byte list \<Rightarrow> byte list" where
  "pad m = m @ [0x80] @ replicate ((55 + 64 - length m mod 64) mod 64) 0
             @ be_bytes (of_nat (8 * length m))"

definition sha256 :: "byte list \<Rightarrow> sha_state" where
  "sha256 m = (let p = pad m in blocks (length p div 64) H256 p)"

definition hex32 :: "u32 \<Rightarrow> string" where
  "hex32 w = map (\<lambda>i. hex_digit (unat (drop_bit (4 * i) w AND 15))) [7, 6, 5, 4, 3, 2, 1, 0]"

definition hexdigest :: "byte list \<Rightarrow> string" where
  "hexdigest m =
     (case sha256 m of (a, b, c, d, e, f, g, h) \<Rightarrow> concat (map hex32 [a, b, c, d, e, f, g, h]))"

section \<open>The client\<close>

text \<open>The fields of \<^verbatim>\<open>GWNClient\<close>. Times are seconds, as \<^verbatim>\<open>time.time()\<close> counts them,
  taken as exact rationals.\<close>

record client =
  app_id :: string
  secret_key :: string
  base_url :: string
  access_token :: json
  token_expiry :: rat

definition GWNClient :: "string \<Rightarrow> string \<Rightarrow> string \<Rightarrow> client" where
  "GWNClient aid secret url =
     \<lparr>app_id = aid, secret_key = secret, base_url = url, access_token = JNull, token_expiry = 0\<rparr>"

subsection \<open>calculate_signature\<close>

text \<open>The string that is hashed: \<^verbatim>\<open>param_str\<close> at line 88 of the source.\<close>

definition param_str :: "client \<Rightarrow> int \<Rightarrow> json \<Rightarrow> string" where
  "param_str self timestamp body =
     (let params = [(''access_token'', py_str (access_token self)),
                    (''appID'', app_id self),
                    (''secretKey'', secret_key self),
                    (''timestamp'', str_int timestamp)];
          sorted_keys = sort (map fst params);
          s = ''&'' @ join ''&'' (map (\<lambda>k. k @ ''='' @ the (map_of params k)) sorted_keys)
      in if py_truthy body
         then s @ ''&'' @ hexdigest (utf8 (json_dumps body)) @ ''&''
         else s @ ''&'')"

definition calculate_signature :: "client \<Rightarrow> int \<Rightarrow> json \<Rightarrow> string" where
  "calculate_signature self timestamp body = hexdigest (utf8 (param_str self timestamp body))"

section \<open>The outside world\<close>

text \<open>
  What \<^verbatim>\<open>httpx.post\<close> or \<^verbatim>\<open>httpx.get\<close> gives back: a transport failure
  (\<^verbatim>\<open>httpx.RequestError\<close>), or a response with its status code, its text and the value
  \<^verbatim>\<open>response.json()\<close> parses from it (\<open>None\<close> when the text is not JSON).
\<close>

datatype http_outcome =
    RequestError string
  | Response nat string "json option"

text \<open>
  The calls the client issues: the form-encoded POST of \<^verbatim>\<open>authenticate\<close> (URL and
  form fields), and the signed POST (URL, headers, query parameters, JSON body) and GET (URL,
  headers, query parameters) of \<^verbatim>\<open>make_request\<close>.
\<close>

datatype http_call =
    Post_form string "(string \<times> string) list"
  | Post_json string "(string \<times> string) list" "(string \<times> json) list" json
  | Get string "(string \<times> string) list" "(string \<times> json) list"

text \<open>
  The world holds the clock (\<open>clock w n\<close> is what the \<open>n\<close>-th call of
  \<^verbatim>\<open>time.time()\<close> returns), the server (\<open>server w n c\<close> is the outcome of the
  \<open>n\<close>-th HTTP call when that call is \<open>c\<close>), and the calls issued so far, oldest first.
\<close>

record world =
  clock :: "nat \<Rightarrow> rat"
  ticks :: nat
  server :: "nat \<Rightarrow> http_call \<Rightarrow> http_outcome"
  sent :: "http_call list"

definition time_time :: "world \<Rightarrow> rat \<times> world" where
  "time_time w = (clock w (ticks w), w\<lparr>ticks := Suc (ticks w)\<rparr>)"

definition httpx_send :: "http_call \<Rightarrow> world \<Rightarrow> http_outcome \<times> world" where
  "httpx_send c w = (server w (length (sent w)) c, w\<lparr>sent := sent w @ [c]\<rparr>)"

text \<open>\<^verbatim>\<open>raise_for_status()\<close> passes the 2xx responses only.\<close>

definition is_success :: "nat \<Rightarrow> bool" where
  "is_success status = (200 \<le> status \<and> status \<le> 299)"

section \<open>Token handling\<close>

text \<open>\<^verbatim>\<open>authenticate\<close>, lines 18 to 49. The \<^verbatim>\<open>print\<close> calls are left out.\<close>

definition authenticate :: "client \<Rightarrow> world \<Rightarrow> (exn + bool) \<times> client \<times> world" where
  "authenticate self w =
     (let auth_url = base_url self @ ''/oauth/token'';
          payload = [(''client_id'', app_id self),
                     (''client_secret'', secret_key self),
                     (''grant_type'', ''client_credentials'')];
          (r, w1) = httpx_send (Post_form auth_url payload) w
      in case r of
           RequestError msg \<Rightarrow> (Inr False, self, w1)
         | Response status txt parsed \<Rightarrow>
             if \<not> is_success status then (Inr False, self, w1)
             else (case parsed of
                     None \<Rightarrow> (Inl JSONDecodeError, self, w1)
                   | Some data \<Rightarrow>
                       (case py_get data ''access_token'' JNull of
                          Inl e \<Rightarrow> (Inl e, self, w1)
                        | Inr tok \<Rightarrow>
                            (let self1 = self\<lparr>access_token := tok\<rparr>
                             in case py_get data ''expires_in'' (JInt 3600) of
                                  Inl e \<Rightarrow> (Inl e, self1, w1)
                                | Inr expires_in \<Rightarrow>
                                    (let (now, w2) = time_time w1
                                     in case py_num expires_in of
                                          None \<Rightarrow> (Inl TypeError, self1, w2)
                                        | Some d \<Rightarrow>
                                            (Inr True,
                                             self1\<lparr>token_expiry := now + of_int d\<rparr>,
                                             w2))))))"

text \<open>The test \<^verbatim>\<open>not self.access_token or time.time() >= self.token_expiry\<close> of lines
  52 and 96. The clock is read only when the token is truthy.\<close>

definition token_missing_or_expired :: "client \<Rightarrow> world \<Rightarrow> bool \<times> world" where
  "token_missing_or_expired self w =
     (if \<not> py_truthy (access_token self) then (True, w)
      else (let (now, w1) = time_time w in (token_expiry self \<le> now, w1)))"

text \<open>\<^verbatim>\<open>get_headers\<close>, lines 51 to 59.\<close>

definition get_headers ::
  "client \<Rightarrow> world \<Rightarrow> (exn + (string \<times> string) list) \<times> client \<times> world" where
  "get_headers self w =
     (let headers = [(''Content-Type'', ''application/json'')];
          (stale, w1) = token_missing_or_expired self w
      in if stale
         then (case authenticate self w1 of
                 (Inl e, self1, w2) \<Rightarrow> (Inl e, self1, w2)
               | (Inr ok, self1, w2) \<Rightarrow>
                   if \<not> ok then (Inl CouldNotAuthenticate, self1, w2)
                   else (Inr headers, self1, w2))
         else (Inr headers, self, w1))"

section \<open>Signed requests\<close>

text \<open>\<^verbatim>\<open>d[k] = v\<close> and \<^verbatim>\<open>d.update(other)\<close> on a dict kept as a list of entries:
  an existing key keeps its place, a new key goes to the end.\<close>

fun dict_set :: "string \<Rightarrow> 'v \<Rightarrow> (string \<times> 'v) list \<Rightarrow> (string \<times> 'v) list" where
  "dict_set k v [] = [(k, v)]"
| "dict_set k v ((k', v') # rest) =
     (if k' = k then (k, v) # rest else (k', v') # dict_set k v rest)"

fun dict_update :: "(string \<times> 'v) list \<Rightarrow> (string \<times> 'v) list \<Rightarrow> (string \<times> 'v) list" where
  "dict_update d [] = d"
| "dict_update d ((k, v) # rest) = dict_update (dict_set k v d) rest"

text \<open>\<^verbatim>\<open>method.upper() == "POST"\<close>. No character other than the ASCII letters has an
  upper case among \<^verbatim>\<open>P\<close>, \<^verbatim>\<open>O\<close>, \<^verbatim>\<open>S\<close>, \<^verbatim>\<open>T\<close> here, so the ASCII letters
  decide the test.\<close>

definition ascii_upper :: "char \<Rightarrow> char" where
  "ascii_upper c =
     (let n = (of_char c :: nat) in if 97 \<le> n \<and> n \<le> 122 then char_of (n - 32) else c)"

definition is_post :: "string \<Rightarrow> bool" where
  "is_post method = (map ascii_upper method = ''POST'')"

text \<open>
  \<^verbatim>\<open>make_request\<close>, lines 91 to 135, in three parts. \<open>json_data = JNull\<close> and
  \<open>params = None\<close> are the defaults \<^verbatim>\<open>None\<close>. The unused \<^verbatim>\<open>body_str\<close> and the
  \<^verbatim>\<open>print\<close> calls are left out.

  Lines 106 to 117: the signature and the query parameters, the caller's \<^verbatim>\<open>params\<close>
  merged last.
\<close>

definition build_query_params ::
  "client \<Rightarrow> int \<Rightarrow> json \<Rightarrow> (string \<times> json) list option \<Rightarrow> (string \<times> json) list" where
  "build_query_params self timestamp json_data params =
     (let signature = calculate_signature self timestamp json_data;
          query_params = [(''access_token'', access_token self),
                          (''appID'', JStr (app_id self)),
                          (''timestamp'', JInt timestamp),
                          (''signature'', JStr signature)]
      in case params of
           None \<Rightarrow> query_params
         | Some ps \<Rightarrow> if ps \<noteq> [] then dict_update query_params ps else query_params)"

text \<open>Lines 121 to 124: the call that is issued.\<close>

definition request_call ::
  "string \<Rightarrow> string \<Rightarrow> (string \<times> string) list \<Rightarrow> (string \<times> json) list \<Rightarrow> json \<Rightarrow> http_call" where
  "request_call method url headers query_params json_data =
     (if is_post method then Post_json url headers query_params json_data
      else Get url headers query_params)"

text \<open>Lines 126 to 135: \<^verbatim>\<open>raise_for_status()\<close>, \<^verbatim>\<open>response.json()\<close> and the two
  handlers. The result \<open>Inr JNull\<close> is the \<^verbatim>\<open>return None\<close> of the handlers (and of a
  response whose JSON is \<^verbatim>\<open>null\<close>).\<close>

definition response_result :: "http_outcome \<Rightarrow> exn + json" where
  "response_result r =
     (case r of
        RequestError msg \<Rightarrow> Inr JNull
      | Response status txt parsed \<Rightarrow>
          if \<not> is_success status then Inr JNull
          else (case parsed of
                  None \<Rightarrow> Inl JSONDecodeError
                | Some v \<Rightarrow> Inr v))"

text \<open>Lines 121 to 135: one call and its result.\<close>

definition send_request ::
  "world \<Rightarrow> string \<Rightarrow> string \<Rightarrow> (string \<times> string) list \<Rightarrow> (string \<times> json) list \<Rightarrow> json
     \<Rightarrow> (exn + json) \<times> world" where
  "send_request w method url headers query_params json_data =
     (let (r, w1) = httpx_send (request_call method url headers query_params json_data) w
      in (response_result r, w1))"

definition make_request ::
  "client \<Rightarrow> world \<Rightarrow> string \<Rightarrow> string \<Rightarrow> json \<Rightarrow> (string \<times> json) list option
     \<Rightarrow> (exn + json) \<times> client \<times> world" where
  "make_request self w method endpoint json_data params =
     (let url = base_url self @ endpoint;
          (t, w1) = time_time w;
          timestamp = py_int (t * 1000);
          (stale, w2) = token_missing_or_expired self w1
      in case (if stale then authenticate self w2 else (Inr True, self, w2)) of
           (Inl e, self1, w3) \<Rightarrow> (Inl e, self1, w3)
         | (Inr ok, self1, w3) \<Rightarrow>
             if \<not> ok then (Inl CouldNotAuthenticate, self1, w3)
             else
               (let query_params = build_query_params self1 timestamp json_data params
                in case get_headers self1 w3 of
                     (Inl e, self2, w4) \<Rightarrow> (Inl e, self2, w4)
                   | (Inr headers, self2, w4) \<Rightarrow>
                       (case send_request w4 method url headers query_params json_data of
                          (r, w5) \<Rightarrow> (r, self2, w5))))"

subsection \<open>The three endpoints\<close>

definition get_networks :: "client \<Rightarrow> world \<Rightarrow> (exn + json) \<times> client \<times> world" where
  "get_networks self w =
     (let params = JObject [(''type'', JStr ''asc''),
                            (''order'', JStr ''id''),
                            (''search'', JStr []),
                            (''pageNum'', JInt 1),
                            (''pageSize'', JInt 5)]
      in make_request self w ''POST'' ''/oapi/v1.0.0/network/list'' params None)"

definition get_access_points ::
  "client \<Rightarrow> world \<Rightarrow> json \<Rightarrow> (exn + json) \<times> client \<times> world" where
  "get_access_points self w network_id =
     (let params = [(''pageNum'', JInt 1), (''pageSize'', JInt 100)];
          params = (if py_truthy network_id then dict_set ''networkId'' network_id params
                    else params)
      in make_request self w ''POST'' ''/oapi/v1.0.0/ap/list'' (JObject params) None)"

definition get_client_List ::
  "client \<Rightarrow> world \<Rightarrow> json \<Rightarrow> (exn + json) \<times> client \<times> world" where
  "get_client_List self w network_id =
     (let params = [(''pageNum'', JInt 1), (''pageSize'', JInt 100), (''untilNow'', JInt 1)];
          params = (if py_truthy network_id then dict_set ''networkId'' network_id params
                    else params)
      in make_request self w ''POST'' ''/oapi/v1.0.0/client/list'' (JObject params) None)"

section \<open>The snapshot\<close>

text \<open>\<^verbatim>\<open>networks['data']['result'][0].get('id')\<close>, line 186.\<close>

definition first_network_id :: "json \<Rightarrow> exn + json" where
  "first_network_id networks =
     (case py_getitem networks ''data'' of
        Inl e \<Rightarrow> Inl e
      | Inr d \<Rightarrow>
          (case py_getitem d ''result'' of
             Inl e \<Rightarrow> Inl e
           | Inr r \<Rightarrow>
               (case py_first r of
                  Inl e \<Rightarrow> Inl e
                | Inr n \<Rightarrow> py_get n ''id'' JNull)))"

text \<open>The loop of lines 198 to 201: \<^verbatim>\<open>aps_map[ap.get("mac", "")] = ap\<close>.\<close>

fun build_aps_map :: "json list \<Rightarrow> (json \<rightharpoonup> json) \<Rightarrow> exn + (json \<rightharpoonup> json)" where
  "build_aps_map [] aps_map = Inr aps_map"
| "build_aps_map (ap # rest) aps_map =
     (case py_get ap ''mac'' (JStr []) of
        Inl e \<Rightarrow> Inl e
      | Inr mac \<Rightarrow>
          (case py_key mac of
             Inl e \<Rightarrow> Inl e
           | Inr k \<Rightarrow> build_aps_map rest (aps_map(k \<mapsto> ap))))"

text \<open>The body of the loop of lines 206 to 225. Only a dict has \<^verbatim>\<open>get\<close>, so any
  other client record raises at line 207.\<close>

fun normalize_client :: "(json \<rightharpoonup> json) \<Rightarrow> json \<Rightarrow> exn + json" where
  "normalize_client aps_map (JObject client) =
     (let ap_id = dict_get client ''apId'' (JStr [])
      in case py_key ap_id of
           Inl e \<Rightarrow> Inl e
         | Inr k \<Rightarrow>
             (let ap_info = (case aps_map k of Some ap \<Rightarrow> ap | None \<Rightarrow> JObject [])
              in case py_get ap_info ''name'' (dict_get client ''apName'' (JStr ''Unknown'')) of
                   Inl e \<Rightarrow> Inl e
                 | Inr ap_name \<Rightarrow>
                     Inr (JObject
                       [(''mac'', dict_get client ''clientId'' (JStr [])),
                        (''name'', dict_get client ''name'' (JStr ''Unknown'')),
                        (''ipv4'', dict_get client ''ipv4'' (JStr [])),
                        (''ipv6'', dict_get client ''ipv6'' (JStr [])),
                        (''ap_mac'', ap_id),
                        (''ap_name'', ap_name),
                        (''rssi'', dict_get client ''rssi'' JNull),
                        (''ssid'', dict_get client ''ssid'' (JStr [])),
                        (''online'', dict_get client ''online'' (JInt 0)),
                        (''tx_bytes'', dict_get client ''txBytes'' (JInt 0)),
                        (''rx_bytes'', dict_get client ''rxBytes'' (JInt 0)),
                        (''tx_rate'', dict_get client ''txRate'' (JInt 0)),
                        (''rx_rate'', dict_get client ''rxRate'' (JInt 0))])))"
| "normalize_client aps_map _ = Inl AttributeError"

fun normalize_clients :: "(json \<rightharpoonup> json) \<Rightarrow> json list \<Rightarrow> json list \<Rightarrow> exn + json list" where
  "normalize_clients aps_map [] clients = Inr clients"
| "normalize_clients aps_map (client # rest) clients =
     (case normalize_client aps_map client of
        Inl e \<Rightarrow> Inl e
      | Inr normalized_client \<Rightarrow> normalize_clients aps_map rest (clients @ [normalized_client]))"

text \<open>\<^verbatim>\<open>x.get("data", {}).get("result", [])\<close>, lines 199 and 205.\<close>

definition result_list :: "json \<Rightarrow> exn + json" where
  "result_list envelope =
     (case py_get envelope ''data'' (JObject []) of
        Inl e \<Rightarrow> Inl e
      | Inr d \<Rightarrow> py_get d ''result'' (JList []))"

text \<open>Lines 194 to 232 of \<^verbatim>\<open>get_data\<close>: the join of the two envelopes into the
  returned dict.\<close>

definition build_snapshot :: "json \<Rightarrow> json \<Rightarrow> exn + json" where
  "build_snapshot aps_data clients_data =
     (case result_list aps_data of
        Inl e \<Rightarrow> Inl e
      | Inr aps_list \<Rightarrow>
          (case py_iter aps_list of
             Inl e \<Rightarrow> Inl e
           | Inr aps \<Rightarrow>
               (case build_aps_map aps Map.empty of
                  Inl e \<Rightarrow> Inl e
                | Inr aps_map \<Rightarrow>
                    (case result_list clients_data of
                       Inl e \<Rightarrow> Inl e
                     | Inr clients_list \<Rightarrow>
                         (case py_iter clients_list of
                            Inl e \<Rightarrow> Inl e
                          | Inr cs \<Rightarrow>
                              (case normalize_clients aps_map cs [] of
                                 Inl e \<Rightarrow> Inl e
                               | Inr clients \<Rightarrow>
                                   Inr (JObject [(''aps'', aps_list),
                                                 (''clients'', JList clients)])))))))"

text \<open>\<^verbatim>\<open>get_data\<close>, lines 178 to 232. It contains no \<^verbatim>\<open>await\<close>, so it runs from start
  to end when awaited. Falling off the end of the \<^verbatim>\<open>if\<close> returns \<^verbatim>\<open>None\<close>.\<close>

definition get_data :: "client \<Rightarrow> world \<Rightarrow> (exn + json) \<times> client \<times> world" where
  "get_data self w =
     (case authenticate self w of
        (Inl e, self1, w1) \<Rightarrow> (Inl e, self1, w1)
      | (Inr ok, self1, w1) \<Rightarrow>
          (case get_networks self1 w1 of
             (Inl e, self2, w2) \<Rightarrow> (Inl e, self2, w2)
           | (Inr networks, self2, w2) \<Rightarrow>
               if \<not> py_truthy networks then (Inr JNull, self2, w2)
               else (case first_network_id networks of
                       Inl e \<Rightarrow> (Inl e, self2, w2)
                     | Inr network_id \<Rightarrow>
                         (case get_access_points self2 w2 network_id of
                            (Inl e, self3, w3) \<Rightarrow> (Inl e, self3, w3)
                          | (Inr aps, self3, w3) \<Rightarrow>
                              (case get_client_List self3 w3 network_id of
                                 (Inl e, self4, w4) \<Rightarrow> (Inl e, self4, w4)
                               | (Inr clients, self4, w4) \<Rightarrow>
                                   (build_snapshot aps clients, self4, w4))))))"

section \<open>Observing a run\<close>

text \<open>The calls issued between two worlds, and which of them are the token request of
  \<^verbatim>\<open>authenticate\<close>.\<close>

definition new_calls :: "world \<Rightarrow> world \<Rightarrow> http_call list" where
  "new_calls w w' = drop (length (sent w)) (sent w')"

definition auth_call :: "client \<Rightarrow> http_call" where
  "auth_call self =
     Post_form (base_url self @ ''/oauth/token'')
       [(''client_id'', app_id self),
        (''client_secret'', secret_key self),
        (''grant_type'', ''client_credentials'')]"

definition is_auth_call :: "http_call \<Rightarrow> bool" where
  "is_auth_call c = (case c of Post_form url form \<Rightarrow> True | _ \<Rightarrow> False)"

text \<open>An outcome that \<^verbatim>\<open>make_request\<close> handles as a failure: a transport error or a
  status outside 2xx.\<close>

definition http_failed :: "http_outcome \<Rightarrow> bool" where
  "http_failed r =
     (case r of RequestError msg \<Rightarrow> True | Response status txt parsed \<Rightarrow> \<not> is_success status)"

text \<open>A fetch that failed: \<^verbatim>\<open>make_request\<close> raised, or returned \<^verbatim>\<open>None\<close>.\<close>

definition fetch_failed :: "exn + json \<Rightarrow> bool" where
  "fetch_failed r = (case r of Inl e \<Rightarrow> True | Inr v \<Rightarrow> v = JNull)"

text \<open>The key under which the loop of lines 198 to 201 stores an access point, and the key
  that line 208 looks up for a client.\<close>

definition mac_key :: "json \<Rightarrow> exn + json" where
  "mac_key ap = (case py_get ap ''mac'' (JStr []) of Inl e \<Rightarrow> Inl e | Inr mac \<Rightarrow> py_key mac)"

definition ap_id_key :: "json \<Rightarrow> exn + json" where
  "ap_id_key client =
     (case py_get client ''apId'' (JStr []) of Inl e \<Rightarrow> Inl e | Inr ap_id \<Rightarrow> py_key ap_id)"

section \<open>Example runs\<close>

text \<open>A world whose clock stands at 1000 seconds, with nothing sent yet; a token reply, and
  a reply with status 200 that carries an error envelope and no token; a client that holds
  the token of the token reply.\<close>

definition frozen_world :: "(nat \<Rightarrow> http_call \<Rightarrow> http_outcome) \<Rightarrow> world" where
  "frozen_world srv = \<lparr>clock = (\<lambda>n. 1000), ticks = 0, server = srv, sent = []\<rparr>"

definition token_reply :: http_outcome where
  "token_reply =
     Response 200 [] (Some (JObject [(''access_token'', JStr ''tok''), (''expires_in'', JInt 3600)]))"

definition error_envelope :: http_outcome where
  "error_envelope = Response 200 [] (Some (JObject [(''retCode'', JInt 40001)]))"

definition logged_in :: client where
  "logged_in = (GWNClient ''app'' ''sec'' ''https://eu.gwn.cloud'')
                 \<lparr>access_token := JStr ''tok'', token_expiry := 4600\<rparr>"

definition unauthorized :: http_outcome where
  "unauthorized = Response 401 ''Unauthorized'' None"

text \<open>A token reply whose lifetime is a string; a server that answers the token request with
  the token reply and the three list endpoints with the given outcomes; the envelope of a
  result list; a failing response.\<close>

definition string_lifetime_reply :: http_outcome where
  "string_lifetime_reply =
     Response 200 []
       (Some (JObject [(''access_token'', JStr ''new''), (''expires_in'', JStr ''3600'')]))"

definition route ::
  "http_outcome \<Rightarrow> http_outcome \<Rightarrow> http_outcome \<Rightarrow> nat \<Rightarrow> http_call \<Rightarrow> http_outcome" where
  "route networks aps clients n c =
     (case c of
        Post_form url form \<Rightarrow> token_reply
      | Post_json url headers query body \<Rightarrow>
          if url = ''https://eu.gwn.cloud/oapi/v1.0.0/network/list'' then networks
          else if url = ''https://eu.gwn.cloud/oapi/v1.0.0/ap/list'' then aps
          else clients
      | Get url headers query \<Rightarrow> Response 404 [] None)"

definition envelope :: "json list \<Rightarrow> http_outcome" where
  "envelope result = Response 200 [] (Some (JObject [(''data'', JObject [(''result'', JList result)])]))"

definition server_error :: http_outcome where
  "server_error = Response 500 ''Internal Server Error'' None"

text \<open>The envelopes of a join example, with a second client whose
  access point is unknown; a client record that has two fields only.\<close>

definition lobby_aps :: json where
  "lobby_aps = JObject [(''data'', JObject [(''result'',
     JList [JObject [(''mac'', JStr ''A1''), (''name'', JStr ''Lobby'')]])])]"

definition two_clients :: json where
  "two_clients = JObject [(''data'', JObject [(''result'',
     JList [JObject [(''clientId'', JStr ''C1''), (''apId'', JStr ''A1''), (''name'', JStr ''Phone'')],
            JObject [(''clientId'', JStr ''C2''), (''apId'', JStr ''B2''),
                     (''apName'', JStr ''Legacy'')]])])]"

definition bare_client :: json where
  "bare_client = JObject [(''clientId'', JStr ''C1''), (''txBytes'', JInt 512)]"

section \<open>The signature\<close>

lemma sorted_keys_eq:
  "sort (map fst [(''access_token'', a), (''appID'', b), (''secretKey'', c), (''timestamp'', d)])
     = [''access_token'', ''appID'', ''secretKey'', ''timestamp'']"
  by simp

lemma param_str_eq:
  "param_str self timestamp body =
     ''&access_token='' @ py_str (access_token self) @
     ''&appID='' @ app_id self @
     ''&secretKey='' @ secret_key self @
     ''&timestamp='' @ str_int timestamp @
     (if py_truthy body then ''&'' @ hexdigest (utf8 (json_dumps body)) @ ''&'' else ''&'')"
  unfolding param_str_def Let_def sorted_keys_eq by simp

lemma str_int_17: "str_int 17 = ''17''"
  by (simp add: str_int_def digits10.simps hex_digit_def)

text \<open>
  C1 (as amended). For every token, app id, secret and timestamp the signature is the SHA-256
  hex digest of the string made of the four parameters \<^verbatim>\<open>access_token\<close>, \<^verbatim>\<open>appID\<close>,
  \<^verbatim>\<open>secretKey\<close>, \<^verbatim>\<open>timestamp\<close> in the lexicographic order of their names, each as
  \<^verbatim>\<open>&key=value\<close>, followed by \<^verbatim>\<open>&digest&\<close> when the body is truthy (neither
  \<^verbatim>\<open>None\<close> nor empty), where the digest is the SHA-256 hex digest of the body's compact
  JSON, and by a single \<^verbatim>\<open>&\<close> otherwise.
\<close>

theorem calculate_signature_param_string:
  "calculate_signature self timestamp body =
     hexdigest (utf8
       (''&access_token='' @ py_str (access_token self) @
        ''&appID='' @ app_id self @
        ''&secretKey='' @ secret_key self @
        ''&timestamp='' @ str_int timestamp @
        (if py_truthy body then ''&'' @ hexdigest (utf8 (json_dumps body)) @ ''&'' else ''&'')))"
  unfolding calculate_signature_def param_str_eq ..

theorem calculate_signature_param_string_witness:
  "calculate_signature
     \<lparr>app_id = ''app'', secret_key = ''sec'', base_url = ''https://eu.gwn.cloud'',
      access_token = JStr ''tok'', token_expiry = 0\<rparr>
     17 (JObject [(''pageNum'', JInt 1)]) =
   hexdigest (utf8
     (''&access_token=tok&appID=app&secretKey=sec&timestamp=17&'' @
      hexdigest (utf8 (json_dumps (JObject [(''pageNum'', JInt 1)]))) @ ''&''))"
  using calculate_signature_param_string
    [of "\<lparr>app_id = ''app'', secret_key = ''sec'', base_url = ''https://eu.gwn.cloud'',
          access_token = JStr ''tok'', token_expiry = 0\<rparr>" 17 "JObject [(''pageNum'', JInt 1)]"]
  by (simp add: str_int_17)

text \<open>
  C1 as stated fails for a body that is present but falsy. With the empty dict as body (a
  POST then carries \<^verbatim>\<open>{}\<close>) the string that is hashed ends in a single \<^verbatim>\<open>&\<close> and
  holds no digest of the body.
\<close>

theorem calculate_signature_empty_body_counterexample:
  "JObject [] \<noteq> JNull \<and>
   calculate_signature
     \<lparr>app_id = ''app'', secret_key = ''sec'', base_url = ''https://eu.gwn.cloud'',
      access_token = JStr ''tok'', token_expiry = 0\<rparr> 17 (JObject [])
     = hexdigest (utf8 ''&access_token=tok&appID=app&secretKey=sec&timestamp=17&'') \<and>
   param_str
     \<lparr>app_id = ''app'', secret_key = ''sec'', base_url = ''https://eu.gwn.cloud'',
      access_token = JStr ''tok'', token_expiry = 0\<rparr> 17 (JObject [])
     = ''&access_token=tok&appID=app&secretKey=sec&timestamp=17&'' \<and>
   param_str
     \<lparr>app_id = ''app'', secret_key = ''sec'', base_url = ''https://eu.gwn.cloud'',
      access_token = JStr ''tok'', token_expiry = 0\<rparr> 17 (JObject [])
     \<noteq> ''&access_token=tok&appID=app&secretKey=sec&timestamp=17&'' @
        hexdigest (utf8 (json_dumps (JObject []))) @ ''&''"
  by (simp add: calculate_signature_def param_str_eq str_int_17)

section \<open>Token reuse and refresh\<close>

lemma time_time_simps [simp]:
  "fst (time_time w) = clock w (ticks w)"
  "sent (snd (time_time w)) = sent w"
  "server (snd (time_time w)) = server w"
  "clock (snd (time_time w)) = clock w"
  "ticks (snd (time_time w)) = Suc (ticks w)"
  by (simp_all add: time_time_def)

lemma token_check_frame:
  assumes "token_missing_or_expired self w = (b, w')"
  shows "sent w' = sent w" "server w' = server w" "clock w' = clock w"
  using assms by (auto simp: token_missing_or_expired_def time_time_def Let_def split: if_splits)

lemma authenticate_frame:
  assumes "authenticate self w = (r, self', w')"
  shows "sent w' = sent w @ [auth_call self]" "server w' = server w" "clock w' = clock w"
        "app_id self' = app_id self" "secret_key self' = secret_key self"
        "base_url self' = base_url self"
proof -
  obtain o1 w1 where h: "httpx_send (auth_call self) w = (o1, w1)"
    by (cases "httpx_send (auth_call self) w")
  then have w1: "w1 = w\<lparr>sent := sent w @ [auth_call self]\<rparr>"
    by (simp add: httpx_send_def)
  have "sent w' = sent w @ [auth_call self] \<and> server w' = server w \<and> clock w' = clock w \<and>
        app_id self' = app_id self \<and> secret_key self' = secret_key self \<and>
        base_url self' = base_url self"
    using assms h w1 unfolding authenticate_def auth_call_def Let_def
    by (simp add: time_time_def
          split: http_outcome.splits if_splits option.splits sum.splits prod.splits) auto
  then show "sent w' = sent w @ [auth_call self]" "server w' = server w" "clock w' = clock w"
    "app_id self' = app_id self" "secret_key self' = secret_key self"
    "base_url self' = base_url self"
    by simp_all
qed

lemma send_request_eq:
  "send_request w method url headers qp json_data =
     (response_result (server w (length (sent w)) (request_call method url headers qp json_data)),
      w\<lparr>sent := sent w @ [request_call method url headers qp json_data]\<rparr>)"
  by (simp add: send_request_def httpx_send_def)

lemma request_call_not_auth [simp]: "\<not> is_auth_call (request_call m u h q j)"
  by (simp add: request_call_def is_auth_call_def)

lemma is_auth_call_Post_form: "is_auth_call (Post_form url form)"
  by (simp add: is_auth_call_def)

lemma auth_call_is_auth [simp]: "is_auth_call (auth_call self)"
  by (simp add: auth_call_def is_auth_call_def)

text \<open>
  C2 (as amended). For a signed call issued via \<^verbatim>\<open>make_request\<close>: if the stored token
  is truthy and unexpired at the check of \<^verbatim>\<open>make_request\<close> and again at the check of
  \<^verbatim>\<open>get_headers\<close>, no authentication call is made, only the request; if the token is
  absent or expired at the check of \<^verbatim>\<open>make_request\<close>, and the authentication call then
  succeeds and leaves a token that is truthy and unexpired at the check of
  \<^verbatim>\<open>get_headers\<close>, exactly one authentication call is made, before the request.
\<close>

theorem make_request_auth_calls:
  "(token_missing_or_expired self (snd (time_time w)) = (False, w2) \<longrightarrow>
    token_missing_or_expired self w2 = (False, w3) \<longrightarrow>
      map is_auth_call
        (new_calls w (snd (snd (make_request self w method endpoint json_data params))))
        = [False]) \<and>
   (token_missing_or_expired self (snd (time_time w)) = (True, w2) \<longrightarrow>
    authenticate self w2 = (Inr True, self1, w3) \<longrightarrow>
    token_missing_or_expired self1 w3 = (False, w4) \<longrightarrow>
      map is_auth_call
        (new_calls w (snd (snd (make_request self w method endpoint json_data params))))
        = [True, False])"
proof (intro conjI impI)
  assume a: "token_missing_or_expired self (snd (time_time w)) = (False, w2)"
    and b: "token_missing_or_expired self w2 = (False, w3)"
  have s: "sent w3 = sent w"
    using token_check_frame(1) [OF a] token_check_frame(1) [OF b] by simp
  show "map is_auth_call
          (new_calls w (snd (snd (make_request self w method endpoint json_data params))))
        = [False]"
    using a b s
    by (simp add: make_request_def get_headers_def Let_def split_def send_request_eq new_calls_def)
next
  assume a: "token_missing_or_expired self (snd (time_time w)) = (True, w2)"
    and b: "authenticate self w2 = (Inr True, self1, w3)"
    and c: "token_missing_or_expired self1 w3 = (False, w4)"
  have s: "sent w4 = sent w @ [auth_call self]"
    using token_check_frame(1) [OF a] authenticate_frame(1) [OF b] token_check_frame(1) [OF c]
    by simp
  show "map is_auth_call
          (new_calls w (snd (snd (make_request self w method endpoint json_data params))))
        = [True, False]"
    using a b c s
    by (simp add: make_request_def get_headers_def Let_def split_def send_request_eq new_calls_def)
qed

lemmas run_defs =
  frozen_world_def token_reply_def error_envelope_def logged_in_def GWNClient_def
  token_missing_or_expired_def time_time_def authenticate_def httpx_send_def is_success_def
  dict_get_def Let_def

theorem make_request_auth_calls_witness:
  "map is_auth_call
     (new_calls (frozen_world (\<lambda>n c. token_reply))
        (snd (snd (make_request logged_in (frozen_world (\<lambda>n c. token_reply))
                     ''POST'' ''/oapi/v1.0.0/ap/list'' JNull None))))
     = [False] \<and>
   map is_auth_call
     (new_calls (frozen_world (\<lambda>n c. token_reply))
        (snd (snd (make_request (GWNClient ''app'' ''sec'' ''https://eu.gwn.cloud'')
                     (frozen_world (\<lambda>n c. token_reply))
                     ''POST'' ''/oapi/v1.0.0/ap/list'' JNull None))))
     = [True, False]"
proof
  let ?w = "frozen_world (\<lambda>n c. token_reply)"
  have a: "token_missing_or_expired logged_in (snd (time_time ?w)) = (False, ?w\<lparr>ticks := 2\<rparr>)"
    by (simp add: run_defs)
  have b: "token_missing_or_expired logged_in (?w\<lparr>ticks := 2\<rparr>) = (False, ?w\<lparr>ticks := 3\<rparr>)"
    by (simp add: run_defs)
  show "map is_auth_call
     (new_calls ?w (snd (snd (make_request logged_in ?w ''POST'' ''/oapi/v1.0.0/ap/list'' JNull None))))
     = [False]"
    using make_request_auth_calls
      [where self = logged_in and w = ?w and ?w2.0 = "?w\<lparr>ticks := 2\<rparr>"
         and ?w3.0 = "?w\<lparr>ticks := 3\<rparr>" and endpoint = "''/oapi/v1.0.0/ap/list''"
         and json_data = JNull and params = None] a b
    by blast
next
  let ?w = "frozen_world (\<lambda>n c. token_reply)"
  let ?c = "GWNClient ''app'' ''sec'' ''https://eu.gwn.cloud''"
  let ?w3 = "?w\<lparr>ticks := 2, sent := [auth_call ?c]\<rparr>"
  have a: "token_missing_or_expired ?c (snd (time_time ?w)) = (True, ?w\<lparr>ticks := 1\<rparr>)"
    by (simp add: run_defs)
  have b: "authenticate ?c (?w\<lparr>ticks := 1\<rparr>) = (Inr True, logged_in, ?w3)"
    by (simp add: run_defs auth_call_def)
  have c: "token_missing_or_expired logged_in ?w3 = (False, ?w3\<lparr>ticks := 3\<rparr>)"
    by (simp add: run_defs)
  show "map is_auth_call
     (new_calls ?w (snd (snd (make_request ?c ?w ''POST'' ''/oapi/v1.0.0/ap/list'' JNull None))))
     = [True, False]"
    using make_request_auth_calls
      [where self = ?c and w = ?w and ?w2.0 = "?w\<lparr>ticks := 1\<rparr>"
         and ?self1.0 = logged_in and ?w3.0 = ?w3 and ?w4.0 = "?w3\<lparr>ticks := 3\<rparr>"
         and endpoint = "''/oapi/v1.0.0/ap/list''"
         and json_data = JNull and params = None] a b c
    by blast
qed

text \<open>
  C2 as stated fails: a new client has no token, the token endpoint answers 200 with an
  envelope that holds no \<^verbatim>\<open>access_token\<close>, so \<^verbatim>\<open>authenticate\<close> returns True and
  leaves the token \<^verbatim>\<open>None\<close>; \<^verbatim>\<open>get_headers\<close> then authenticates a second time before
  the request goes out.
\<close>

theorem make_request_two_auth_calls_counterexample:
  "\<not> py_truthy (access_token (GWNClient ''app'' ''sec'' ''https://eu.gwn.cloud'')) \<and>
   map is_auth_call
     (new_calls (frozen_world (\<lambda>n c. error_envelope))
        (snd (snd (make_request (GWNClient ''app'' ''sec'' ''https://eu.gwn.cloud'')
                     (frozen_world (\<lambda>n c. error_envelope))
                     ''POST'' ''/oapi/v1.0.0/ap/list'' JNull None))))
     = [True, True, False]"
  by (simp add: run_defs make_request_def get_headers_def split_def send_request_eq new_calls_def
        is_auth_call_Post_form)


section \<open>Query parameters\<close>

lemma map_of_dict_set: "map_of (dict_set k v d) = (map_of d)(k \<mapsto> v)"
  by (induction d) (auto simp: fun_eq_iff)

lemma map_of_dict_update_other:
  "k \<notin> fst ` set ps \<Longrightarrow> map_of (dict_update d ps) k = map_of d k"
  by (induction d ps rule: dict_update.induct) (auto simp: map_of_dict_set)

lemma map_of_dict_update_given:
  "distinct (map fst ps) \<Longrightarrow> (k, v) \<in> set ps \<Longrightarrow> map_of (dict_update d ps) k = Some v"
proof (induction d ps rule: dict_update.induct)
  case (1 d)
  then show ?case by simp
next
  case (2 d k' v' rest)
  show ?case
  proof (cases "k' = k")
    case True
    with 2 have "v' = v" "k \<notin> fst ` set rest"
      by (auto simp: image_iff)
    then show ?thesis
      using True by (simp add: map_of_dict_update_other map_of_dict_set)
  next
    case False
    with 2 show ?thesis by auto
  qed
qed

text \<open>
  C3 (as amended). The query parameters of a signed call are the four fields
  \<^verbatim>\<open>access_token\<close>, \<^verbatim>\<open>appID\<close>, \<^verbatim>\<open>timestamp\<close> and \<^verbatim>\<open>signature\<close> with the values
  the executor computed, merged with the caller's extra parameters; a field that the caller
  does not supply keeps the computed value, and a field that the caller supplies, one of the
  four signed fields included, is sent with the caller's value.
\<close>

theorem build_query_params_override:
  "build_query_params self timestamp json_data None =
     [(''access_token'', access_token self),
      (''appID'', JStr (app_id self)),
      (''timestamp'', JInt timestamp),
      (''signature'', JStr (calculate_signature self timestamp json_data))] \<and>
   (k \<notin> fst ` set ps \<longrightarrow>
      map_of (build_query_params self timestamp json_data (Some ps)) k =
      map_of (build_query_params self timestamp json_data None) k) \<and>
   (distinct (map fst ps) \<longrightarrow> (k, v) \<in> set ps \<longrightarrow>
      map_of (build_query_params self timestamp json_data (Some ps)) k = Some v)"
  by (simp add: build_query_params_def Let_def map_of_dict_update_other
        map_of_dict_update_given)

theorem build_query_params_override_witness:
  "map_of (build_query_params logged_in 17 JNull (Some [(''pageNum'', JInt 2)])) ''appID''
     = Some (JStr ''app'') \<and>
   map_of (build_query_params logged_in 17 JNull
             (Some [(''pageNum'', JInt 2), (''appID'', JStr ''other'')])) ''appID''
     = Some (JStr ''other'')"
  using build_query_params_override
      [where self = logged_in and timestamp = 17 and json_data = JNull
         and k = "''appID''" and ps = "[(''pageNum'', JInt 2)]"]
    build_query_params_override
      [where self = logged_in and timestamp = 17 and json_data = JNull
         and k = "''appID''" and v = "JStr ''other''"
         and ps = "[(''pageNum'', JInt 2), (''appID'', JStr ''other'')]"]
  by (simp add: logged_in_def GWNClient_def)

lemma is_post_GET: "\<not> is_post ''GET''"
  by (simp add: is_post_def)

lemma is_post_POST: "is_post ''POST''"
  by (simp add: is_post_def ascii_upper_def)

lemma py_int_million: "py_int 1000000 = 1000000"
  by (simp add: py_int_def)

text \<open>
  C3 as stated fails: a caller that passes \<^verbatim>\<open>appID\<close> among the extra parameters replaces
  the app id of the client in the request that is sent.
\<close>

theorem make_request_params_override_counterexample:
  "sent (snd (snd (make_request logged_in (frozen_world (\<lambda>n c. token_reply))
                     ''GET'' ''/oapi/v1.0.0/ap/list'' JNull
                     (Some [(''appID'', JStr ''other'')]))))
     = [Get ''https://eu.gwn.cloud/oapi/v1.0.0/ap/list''
          [(''Content-Type'', ''application/json'')]
          [(''access_token'', JStr ''tok''),
           (''appID'', JStr ''other''),
           (''timestamp'', JInt 1000000),
           (''signature'', JStr (calculate_signature logged_in 1000000 JNull))]] \<and>
   app_id logged_in = ''app''"
  by (simp add: run_defs make_request_def get_headers_def split_def send_request_eq
        request_call_def is_post_GET build_query_params_def py_int_million)


section \<open>Failed requests\<close>

lemma get_headers_frame:
  assumes "get_headers self w = (r, self', w')"
  shows "server w' = server w \<and>
         (\<exists>auths. sent w' = sent w @ auths \<and> (\<forall>a\<in>set auths. is_auth_call a))"
proof -
  obtain stale w1 where c: "token_missing_or_expired self w = (stale, w1)"
    by (cases "token_missing_or_expired self w")
  show ?thesis
  proof (cases stale)
    case False
    then have "w' = w1"
      using assms c by (simp add: get_headers_def)
    then show ?thesis
      using token_check_frame [OF c] by simp
  next
    case True
    obtain ar self1 w2 where a: "authenticate self w1 = (ar, self1, w2)"
      by (cases "authenticate self w1")
    have "w' = w2"
      using assms c a True by (simp add: get_headers_def split: sum.splits if_splits)
    then have "server w' = server w" "sent w' = sent w @ [auth_call self]"
      using token_check_frame [OF c] authenticate_frame [OF a] by simp_all
    then show ?thesis
      by (intro conjI exI [of _ "[auth_call self]"]) simp_all
  qed
qed

lemma make_request_shape:
  assumes "make_request self w method endpoint json_data params = (r, self', w')"
  shows "\<exists>auths. (\<forall>a\<in>set auths. is_auth_call a) \<and>
           ((new_calls w w' = auths \<and> (\<exists>e. r = Inl e)) \<or>
            (\<exists>c. new_calls w w' = auths @ [c] \<and> \<not> is_auth_call c \<and>
                 r = response_result (server w (length (sent w) + length auths) c)))"
proof -
  obtain stale w2 where c: "token_missing_or_expired self (snd (time_time w)) = (stale, w2)"
    by (cases "token_missing_or_expired self (snd (time_time w))")
  obtain ar self1 w3 where
    a: "(if stale then authenticate self w2 else (Inr True, self, w2)) = (ar, self1, w3)"
    by (cases "if stale then authenticate self w2 else (Inr True, self, w2)")
  have w2: "sent w2 = sent w" "server w2 = server w"
    using token_check_frame [OF c] by simp_all
  have w3: "server w3 = server w"
    "\<exists>auths. sent w3 = sent w @ auths \<and> (\<forall>a\<in>set auths. is_auth_call a)"
  proof -
    show "server w3 = server w"
      using a w2 authenticate_frame(2) [of self w2 ar self1 w3] by (auto split: if_splits)
    show "\<exists>auths. sent w3 = sent w @ auths \<and> (\<forall>a\<in>set auths. is_auth_call a)"
    proof (cases stale)
      case True
      then have "sent w3 = sent w @ [auth_call self]"
        using a w2 authenticate_frame(1) [of self w2 ar self1 w3] by simp
      then show ?thesis
        by (intro exI [of _ "[auth_call self]"]) simp
    next
      case False
      then show ?thesis
        using a w2 by (intro exI [of _ "[]"]) auto
    qed
  qed
  then obtain auths1 where
    auths1: "sent w3 = sent w @ auths1" "\<forall>a\<in>set auths1. is_auth_call a"
    by blast
  have a1: "authenticate self w2 = (ar, self1, w3)" if stale
    using a that by simp
  have a2: "ar = Inr True \<and> self1 = self \<and> w3 = w2" if "\<not> stale"
    using a that by simp
  have eq_inl: "make_request self w method endpoint json_data params = (Inl e, self1, w3)"
    if "ar = Inl e" for e
    using c a1 a2 that by (cases stale) (simp_all add: make_request_def Let_def split_def)
  have eq_false: "make_request self w method endpoint json_data params
      = (Inl CouldNotAuthenticate, self1, w3)"
    if "ar = Inr False"
    using c a1 a2 that by (cases stale) (simp_all add: make_request_def Let_def split_def)
  have eq_hinl: "make_request self w method endpoint json_data params = (Inl e, self2, w4)"
    if "ar = Inr True" "get_headers self1 w3 = (Inl e, self2, w4)" for e self2 w4
    using c a1 a2 that by (cases stale) (simp_all add: make_request_def Let_def split_def)
  have eq_hinr: "make_request self w method endpoint json_data params =
      (response_result (server w4 (length (sent w4))
         (request_call method (base_url self @ endpoint) headers
            (build_query_params self1 (py_int (clock w (ticks w) * 1000)) json_data params)
            json_data)),
       self2,
       w4\<lparr>sent := sent w4 @
         [request_call method (base_url self @ endpoint) headers
            (build_query_params self1 (py_int (clock w (ticks w) * 1000)) json_data params)
            json_data]\<rparr>)"
    if "ar = Inr True" "get_headers self1 w3 = (Inr headers, self2, w4)" for headers self2 w4
    using c a1 a2 that
    by (cases stale) (simp_all add: make_request_def Let_def split_def send_request_eq)
  show ?thesis
  proof (cases ar)
    case (Inl e)
    then have "r = Inl e" "w' = w3"
      using assms eq_inl by simp_all
    then show ?thesis
      using auths1 by (intro exI [of _ auths1]) (simp add: new_calls_def)
  next
    case (Inr ok)
    show ?thesis
    proof (cases ok)
      case False
      then have "r = Inl CouldNotAuthenticate" "w' = w3"
        using assms eq_false Inr by simp_all
      then show ?thesis
        using auths1 by (intro exI [of _ auths1]) (simp add: new_calls_def)
    next
      case True
      obtain hr self2 w4 where h: "get_headers self1 w3 = (hr, self2, w4)"
        by (cases "get_headers self1 w3")
      from get_headers_frame [OF h] obtain auths2 where
        auths2: "server w4 = server w3" "sent w4 = sent w3 @ auths2"
          "\<forall>a\<in>set auths2. is_auth_call a"
        by blast
      show ?thesis
      proof (cases hr)
        case (Inl e)
        then have "r = Inl e" "w' = w4"
          using assms eq_hinl Inr True h by simp_all
        then show ?thesis
          using auths1 auths2
          by (intro exI [of _ "auths1 @ auths2"]) (auto simp: new_calls_def)
      next
        case hd: (Inr headers)
        let ?c = "request_call method (base_url self @ endpoint) headers
                    (build_query_params self1 (py_int (clock w (ticks w) * 1000))
                       json_data params) json_data"
        have "r = response_result (server w4 (length (sent w4)) ?c)"
          "w' = w4\<lparr>sent := sent w4 @ [?c]\<rparr>"
          using assms eq_hinr [of headers self2 w4] Inr True h hd by simp_all
        then have "new_calls w w' = (auths1 @ auths2) @ [?c]"
          "r = response_result (server w (length (sent w) + length (auths1 @ auths2)) ?c)"
          using auths1 auths2 w3 by (simp_all add: new_calls_def)
        then show ?thesis
          using auths1 auths2
          by (intro exI [of _ "auths1 @ auths2"]) auto
      qed
    qed
  qed
qed

lemma response_result_failed: "http_failed out \<Longrightarrow> response_result out = Inr JNull"
  by (auto simp: http_failed_def response_result_def split: http_outcome.splits)

text \<open>
  C4 (as amended). Whenever the request of a signed call ends in a transport error or a
  response outside 2xx, \<^verbatim>\<open>make_request\<close> returns \<^verbatim>\<open>None\<close> (the status and the body are
  printed only; no exception is raised), and in every case at most one request is issued
  besides the token requests: there is no retry.
\<close>

theorem make_request_failure_returns_None:
  assumes "make_request self w method endpoint json_data params = (r, self', w')"
  shows "length (filter (\<lambda>c. \<not> is_auth_call c) (new_calls w w')) \<le> 1 \<and>
         (\<forall>pre c. new_calls w w' = pre @ [c] \<longrightarrow> \<not> is_auth_call c \<longrightarrow>
                  http_failed (server w (length (sent w) + length pre) c) \<longrightarrow>
                  r = Inr JNull)"
proof -
  from make_request_shape [OF assms] obtain auths where
    auths: "\<forall>a\<in>set auths. is_auth_call a"
    and shape: "(new_calls w w' = auths \<and> (\<exists>e. r = Inl e)) \<or>
            (\<exists>c. new_calls w w' = auths @ [c] \<and> \<not> is_auth_call c \<and>
                 r = response_result (server w (length (sent w) + length auths) c))"
    by blast
  have none: "filter (\<lambda>c. \<not> is_auth_call c) auths = []"
    using auths by (simp add: filter_empty_conv)
  from shape show ?thesis
  proof
    assume "new_calls w w' = auths \<and> (\<exists>e. r = Inl e)"
    then show ?thesis
      using auths none by auto
  next
    assume "\<exists>c. new_calls w w' = auths @ [c] \<and> \<not> is_auth_call c \<and>
                 r = response_result (server w (length (sent w) + length auths) c)"
    then obtain c0 where c0: "new_calls w w' = auths @ [c0]" "\<not> is_auth_call c0"
      "r = response_result (server w (length (sent w) + length auths) c0)"
      by blast
    then show ?thesis
      using none by (auto simp: response_result_failed)
  qed
qed

theorem make_request_failure_returns_None_witness:
  "http_failed unauthorized \<and>
   fst (make_request logged_in (frozen_world (\<lambda>n c. unauthorized))
          ''POST'' ''/oapi/v1.0.0/ap/list'' JNull None) = Inr JNull"
proof -
  let ?w = "frozen_world (\<lambda>n c. unauthorized)"
  let ?c = "request_call ''POST'' ''https://eu.gwn.cloud/oapi/v1.0.0/ap/list''
              [(''Content-Type'', ''application/json'')]
              (build_query_params logged_in 1000000 JNull None) JNull"
  have f: "http_failed unauthorized"
    by (simp add: http_failed_def unauthorized_def is_success_def)
  obtain r self' w' where
    m: "make_request logged_in ?w ''POST'' ''/oapi/v1.0.0/ap/list'' JNull None = (r, self', w')"
    by (cases "make_request logged_in ?w ''POST'' ''/oapi/v1.0.0/ap/list'' JNull None")
  have "sent w' = [?c]"
    using m by (auto simp: run_defs make_request_def get_headers_def split_def send_request_eq
        py_int_million)
  then have n: "new_calls ?w w' = [] @ [?c]"
    by (simp add: new_calls_def frozen_world_def)
  have "r = Inr JNull"
    using make_request_failure_returns_None [OF m] n f
    by (simp add: frozen_world_def)
  then show ?thesis
    using m f by simp
qed

text \<open>
  C4 as stated fails: on a 401 response the call does not fail with an error that carries
  the status; it returns \<^verbatim>\<open>None\<close>, after one request.
\<close>

theorem make_request_401_counterexample:
  "make_request logged_in (frozen_world (\<lambda>n c. unauthorized))
          ''POST'' ''/oapi/v1.0.0/ap/list'' JNull None =
     (Inr JNull, logged_in,
      \<lparr>clock = (\<lambda>n. 1000), ticks = 3, server = (\<lambda>n c. unauthorized),
       sent = [Post_json ''https://eu.gwn.cloud/oapi/v1.0.0/ap/list''
                 [(''Content-Type'', ''application/json'')]
                 (build_query_params logged_in 1000000 JNull None) JNull]\<rparr>)"
  by (simp add: run_defs make_request_def get_headers_def split_def send_request_eq
        py_int_million request_call_def is_post_POST response_result_def unauthorized_def)


section \<open>Authentication\<close>

text \<open>What \<^verbatim>\<open>authenticate\<close> leaves behind when it returns: on True both fields are set,
  the expiry to the time read plus \<^verbatim>\<open>expires_in\<close> (3600 when absent); on False nothing
  is changed.\<close>

lemma authenticate_outcomes:
  assumes "authenticate self w = (r, self', w')"
  shows "r = Inr True \<longrightarrow>
           (\<exists>status txt data tok d.
              server w (length (sent w)) (auth_call self) = Response status txt (Some data) \<and>
              py_get data ''access_token'' JNull = Inr tok \<and>
              (\<exists>e. py_get data ''expires_in'' (JInt 3600) = Inr e \<and> py_num e = Some d) \<and>
              self' = self\<lparr>access_token := tok, token_expiry := clock w (ticks w) + of_int d\<rparr>)"
    and "r = Inr False \<longrightarrow> self' = self"
  using assms unfolding authenticate_def auth_call_def Let_def httpx_send_def time_time_def
  by (auto split: http_outcome.splits if_splits option.splits sum.splits prod.splits)

text \<open>
  C9, at the failing input. The token endpoint answers 200 with a token and an
  \<^verbatim>\<open>expires_in\<close> that is a string. \<^verbatim>\<open>authenticate\<close> has stored the new token when the
  addition \<^verbatim>\<open>time.time() + expires_in\<close> raises TypeError: the call fails with
  \<^verbatim>\<open>access_token\<close> replaced and \<^verbatim>\<open>token_expiry\<close> left as it was.
\<close>

theorem authenticate_partial_update:
  "authenticate logged_in (frozen_world (\<lambda>n c. string_lifetime_reply)) =
     (Inl TypeError,
      logged_in\<lparr>access_token := JStr ''new''\<rparr>,
      \<lparr>clock = (\<lambda>n. 1000), ticks = 1, server = (\<lambda>n c. string_lifetime_reply),
       sent = [auth_call logged_in]\<rparr>) \<and>
   access_token logged_in = JStr ''tok'' \<and>
   token_expiry (logged_in\<lparr>access_token := JStr ''new''\<rparr>) = token_expiry logged_in"
  by (simp add: run_defs string_lifetime_reply_def auth_call_def)

section \<open>The snapshot entry point\<close>

lemma make_request_fresh:
  assumes "py_truthy (access_token self)"
    and "clock w (Suc (ticks w)) < token_expiry self"
    and "clock w (Suc (Suc (ticks w))) < token_expiry self"
  shows "make_request self w method endpoint json_data params =
     (response_result (server w (length (sent w))
        (request_call method (base_url self @ endpoint)
           [(''Content-Type'', ''application/json'')]
           (build_query_params self (py_int (clock w (ticks w) * 1000)) json_data params)
           json_data)),
      self,
      w\<lparr>ticks := ticks w + 3,
        sent := sent w @
          [request_call method (base_url self @ endpoint)
             [(''Content-Type'', ''application/json'')]
             (build_query_params self (py_int (clock w (ticks w) * 1000)) json_data params)
             json_data]\<rparr>)"
  using assms
  by (simp add: make_request_def get_headers_def token_missing_or_expired_def time_time_def
        Let_def send_request_eq not_le)

text \<open>
  C10. Whenever the network-list call returns \<^verbatim>\<open>None\<close> (as \<^verbatim>\<open>make_request\<close> does on a
  failed request) or another falsy envelope, \<^verbatim>\<open>get_data\<close> raises nothing and returns
  \<^verbatim>\<open>None\<close>, which is neither a snapshot nor a failure.
\<close>

theorem get_data_returns_None:
  assumes "authenticate self w = (Inr ok, self1, w1)"
    and "get_networks self1 w1 = (Inr networks, self2, w2)"
    and "\<not> py_truthy networks"
  shows "get_data self w = (Inr JNull, self2, w2)"
  using assms by (simp add: get_data_def)

lemma authenticate_fresh_client:
  "authenticate (GWNClient ''app'' ''sec'' ''https://eu.gwn.cloud'')
     (frozen_world (route networks aps clients)) =
   (Inr True, logged_in,
    \<lparr>clock = (\<lambda>n. 1000), ticks = 1, server = route networks aps clients,
     sent = [auth_call logged_in]\<rparr>)"
  by (simp add: run_defs route_def auth_call_def)

lemma logged_in_fresh:
  "py_truthy (access_token logged_in)" "(1000::rat) < token_expiry logged_in"
  "base_url logged_in = ''https://eu.gwn.cloud''"
  by (simp_all add: logged_in_def GWNClient_def)

lemma get_networks_logged_in:
  "clock w = (\<lambda>n. 1000) \<Longrightarrow> server w = route networks aps clients \<Longrightarrow>
   get_networks logged_in w =
     (response_result networks, logged_in,
      w\<lparr>ticks := ticks w + 3,
        sent := sent w @
          [Post_json ''https://eu.gwn.cloud/oapi/v1.0.0/network/list''
             [(''Content-Type'', ''application/json'')]
             (build_query_params logged_in 1000000
                (JObject [(''type'', JStr ''asc''), (''order'', JStr ''id''),
                          (''search'', JStr []), (''pageNum'', JInt 1), (''pageSize'', JInt 5)])
                None)
             (JObject [(''type'', JStr ''asc''), (''order'', JStr ''id''),
                       (''search'', JStr []), (''pageNum'', JInt 1), (''pageSize'', JInt 5)])]\<rparr>)"
  by (simp add: get_networks_def make_request_fresh logged_in_fresh request_call_def
        is_post_POST route_def py_int_million Let_def)

theorem get_data_returns_None_witness:
  "get_data (GWNClient ''app'' ''sec'' ''https://eu.gwn.cloud'')
     (frozen_world (route server_error (envelope []) (envelope []))) =
   (Inr JNull, logged_in,
    \<lparr>clock = (\<lambda>n. 1000), ticks = 4,
     server = route server_error (envelope []) (envelope []),
     sent = [auth_call logged_in,
             Post_json ''https://eu.gwn.cloud/oapi/v1.0.0/network/list''
               [(''Content-Type'', ''application/json'')]
               (build_query_params logged_in 1000000
                  (JObject [(''type'', JStr ''asc''), (''order'', JStr ''id''),
                            (''search'', JStr []), (''pageNum'', JInt 1), (''pageSize'', JInt 5)])
                  None)
               (JObject [(''type'', JStr ''asc''), (''order'', JStr ''id''),
                         (''search'', JStr []), (''pageNum'', JInt 1), (''pageSize'', JInt 5)])]\<rparr>)"
proof -
  let ?srv = "route server_error (envelope []) (envelope [])"
  let ?w1 = "\<lparr>clock = (\<lambda>n. 1000), ticks = 1, server = ?srv, sent = [auth_call logged_in]\<rparr>"
  have a: "authenticate (GWNClient ''app'' ''sec'' ''https://eu.gwn.cloud'') (frozen_world ?srv)
           = (Inr True, logged_in, ?w1)"
    by (rule authenticate_fresh_client)
  have n: "get_networks logged_in ?w1 =
     (Inr JNull, logged_in,
      ?w1\<lparr>ticks := ticks ?w1 + 3,
        sent := sent ?w1 @
          [Post_json ''https://eu.gwn.cloud/oapi/v1.0.0/network/list''
             [(''Content-Type'', ''application/json'')]
             (build_query_params logged_in 1000000
                (JObject [(''type'', JStr ''asc''), (''order'', JStr ''id''),
                          (''search'', JStr []), (''pageNum'', JInt 1), (''pageSize'', JInt 5)])
                None)
             (JObject [(''type'', JStr ''asc''), (''order'', JStr ''id''),
                       (''search'', JStr []), (''pageNum'', JInt 1), (''pageSize'', JInt 5)])]\<rparr>)"
    by (simp add: get_networks_logged_in [where networks = server_error
          and aps = "envelope []" and clients = "envelope []"]
        response_result_def server_error_def is_success_def)
  show ?thesis
    using get_data_returns_None [OF a n] by simp
qed


section \<open>Failures of the snapshot build\<close>

lemma py_getitem_truthy: "py_getitem j k = Inr v \<Longrightarrow> py_truthy j"
  by (cases j) (auto split: option.splits)

text \<open>
  C5 (as amended). If the network-list call returns an envelope whose result list is empty,
  the snapshot build fails: \<^verbatim>\<open>get_data\<close> returns no snapshot and raises the exception of
  indexing the empty list. The code has no \<^verbatim>\<open>SnapshotError\<close>.
\<close>

theorem get_data_empty_network_list:
  assumes "authenticate self w = (Inr ok, self1, w1)"
    and "get_networks self1 w1 = (Inr networks, self2, w2)"
    and "py_getitem networks ''data'' = Inr d"
    and "py_getitem d ''result'' = Inr (JList [])"
  shows "get_data self w = (Inl IndexError, self2, w2)"
  using assms py_getitem_truthy [OF assms(3)]
  by (simp add: get_data_def first_network_id_def)

lemma get_networks_fresh_client:
  "get_networks logged_in
     \<lparr>clock = (\<lambda>n. 1000), ticks = 1, server = route networks aps clients,
      sent = [auth_call logged_in]\<rparr> =
   (response_result networks, logged_in,
    \<lparr>clock = (\<lambda>n. 1000), ticks = 4, server = route networks aps clients,
     sent = [auth_call logged_in,
             Post_json ''https://eu.gwn.cloud/oapi/v1.0.0/network/list''
               [(''Content-Type'', ''application/json'')]
               (build_query_params logged_in 1000000
                  (JObject [(''type'', JStr ''asc''), (''order'', JStr ''id''),
                            (''search'', JStr []), (''pageNum'', JInt 1), (''pageSize'', JInt 5)])
                  None)
               (JObject [(''type'', JStr ''asc''), (''order'', JStr ''id''),
                         (''search'', JStr []), (''pageNum'', JInt 1), (''pageSize'', JInt 5)])]\<rparr>)"
  by (simp add: get_networks_logged_in [where networks = networks and aps = aps
        and clients = clients])

lemma response_result_envelope:
  "response_result (envelope xs) = Inr (JObject [(''data'', JObject [(''result'', JList xs)])])"
  by (simp add: response_result_def envelope_def is_success_def)

theorem get_data_empty_network_list_witness:
  "get_data (GWNClient ''app'' ''sec'' ''https://eu.gwn.cloud'')
     (frozen_world (route (envelope []) (envelope []) (envelope []))) =
   (Inl IndexError, logged_in,
    \<lparr>clock = (\<lambda>n. 1000), ticks = 4,
     server = route (envelope []) (envelope []) (envelope []),
     sent = [auth_call logged_in,
             Post_json ''https://eu.gwn.cloud/oapi/v1.0.0/network/list''
               [(''Content-Type'', ''application/json'')]
               (build_query_params logged_in 1000000
                  (JObject [(''type'', JStr ''asc''), (''order'', JStr ''id''),
                            (''search'', JStr []), (''pageNum'', JInt 1), (''pageSize'', JInt 5)])
                  None)
               (JObject [(''type'', JStr ''asc''), (''order'', JStr ''id''),
                         (''search'', JStr []), (''pageNum'', JInt 1), (''pageSize'', JInt 5)])]\<rparr>)"
proof -
  have d: "py_getitem (JObject [(''data'', JObject [(''result'', JList [])])]) ''data''
             = Inr (JObject [(''result'', JList [])])"
    by simp
  have r: "py_getitem (JObject [(''result'', JList [])]) ''result'' = Inr (JList [])"
    by simp
  show ?thesis
    using get_data_empty_network_list
      [OF authenticate_fresh_client
          get_networks_fresh_client [where networks = "envelope []", unfolded response_result_envelope]
          d r]
    by simp
qed

text \<open>
  C5 as stated fails: with an empty result list the build ends in Python's own
  \<^verbatim>\<open>IndexError\<close>, an untyped exception.
\<close>

theorem get_data_empty_network_list_counterexample:
  "fst (get_data (GWNClient ''app'' ''sec'' ''https://eu.gwn.cloud'')
          (frozen_world (route (envelope []) (envelope []) (envelope [])))) = Inl IndexError"
  by (simp add: get_data_def authenticate_fresh_client get_networks_fresh_client
        response_result_envelope first_network_id_def del: One_nat_def)


lemma build_snapshot_shape:
  "build_snapshot aps_data clients_data = Inr v \<Longrightarrow>
     \<exists>aps_list clients. v = JObject [(''aps'', aps_list), (''clients'', JList clients)]"
  by (auto simp: build_snapshot_def split: sum.splits)

lemma build_snapshot_None_aps: "build_snapshot JNull clients_data = Inl AttributeError"
  by (simp add: build_snapshot_def result_list_def)

lemma build_snapshot_None_clients: "\<exists>e. build_snapshot aps_data JNull = Inl e"
  by (simp add: build_snapshot_def result_list_def split: sum.splits)

text \<open>
  C6 (as amended). If fetching the access-point list or the client list fails after a network
  identifier was obtained (the fetch raises, or \<^verbatim>\<open>make_request\<close> returns \<^verbatim>\<open>None\<close>),
  \<^verbatim>\<open>get_data\<close> ends in an exception; and whatever \<^verbatim>\<open>get_data\<close> returns then is a
  snapshot that holds both lists, never one list without the other.
\<close>

theorem get_data_fetch_failure:
  assumes "authenticate self w = (Inr ok, self1, w1)"
    and "get_networks self1 w1 = (Inr networks, self2, w2)"
    and "py_truthy networks"
    and "first_network_id networks = Inr network_id"
    and "get_access_points self2 w2 network_id = (ra, self3, w3)"
    and "get_client_List self3 w3 network_id = (rc, self4, w4)"
  shows "(fetch_failed ra \<or> fetch_failed rc \<longrightarrow> (\<exists>e. fst (get_data self w) = Inl e)) \<and>
         (\<forall>v. fst (get_data self w) = Inr v \<longrightarrow>
              (\<exists>aps_list clients.
                 v = JObject [(''aps'', aps_list), (''clients'', JList clients)]))"
proof (cases ra)
  case (Inl e)
  then have "fst (get_data self w) = Inl e"
    using assms by (simp add: get_data_def)
  then show ?thesis by simp
next
  case ra: (Inr aps)
  show ?thesis
  proof (cases rc)
    case (Inl e)
    then have "fst (get_data self w) = Inl e"
      using assms ra by (simp add: get_data_def)
    then show ?thesis by simp
  next
    case rc: (Inr clients)
    have g: "fst (get_data self w) = build_snapshot aps clients"
      using assms ra rc by (simp add: get_data_def)
    have "\<exists>e. build_snapshot aps clients = Inl e" if "fetch_failed ra \<or> fetch_failed rc"
      using that ra rc build_snapshot_None_aps build_snapshot_None_clients
      by (auto simp: fetch_failed_def)
    then show ?thesis
      using g build_snapshot_shape by auto
  qed
qed

lemma get_access_points_logged_in:
  "clock w = (\<lambda>n. 1000) \<Longrightarrow> server w = route networks aps clients \<Longrightarrow>
   get_access_points logged_in w (JInt 7) =
     (response_result aps, logged_in,
      w\<lparr>ticks := ticks w + 3,
        sent := sent w @
          [Post_json ''https://eu.gwn.cloud/oapi/v1.0.0/ap/list''
             [(''Content-Type'', ''application/json'')]
             (build_query_params logged_in 1000000
                (JObject [(''pageNum'', JInt 1), (''pageSize'', JInt 100),
                          (''networkId'', JInt 7)])
                None)
             (JObject [(''pageNum'', JInt 1), (''pageSize'', JInt 100),
                       (''networkId'', JInt 7)])]\<rparr>)"
  by (simp add: get_access_points_def make_request_fresh logged_in_fresh request_call_def
        is_post_POST route_def py_int_million Let_def)

lemma get_client_List_logged_in:
  "clock w = (\<lambda>n. 1000) \<Longrightarrow> server w = route networks aps clients \<Longrightarrow>
   get_client_List logged_in w (JInt 7) =
     (response_result clients, logged_in,
      w\<lparr>ticks := ticks w + 3,
        sent := sent w @
          [Post_json ''https://eu.gwn.cloud/oapi/v1.0.0/client/list''
             [(''Content-Type'', ''application/json'')]
             (build_query_params logged_in 1000000
                (JObject [(''pageNum'', JInt 1), (''pageSize'', JInt 100),
                          (''untilNow'', JInt 1), (''networkId'', JInt 7)])
                None)
             (JObject [(''pageNum'', JInt 1), (''pageSize'', JInt 100),
                       (''untilNow'', JInt 1), (''networkId'', JInt 7)])]\<rparr>)"
  by (simp add: get_client_List_def make_request_fresh logged_in_fresh request_call_def
        is_post_POST route_def py_int_million Let_def)

lemma first_network_id_7:
  "first_network_id (JObject [(''data'', JObject [(''result'', JList [JObject [(''id'', JInt 7)]])])])
     = Inr (JInt 7)"
  by (simp add: first_network_id_def dict_get_def)

lemma response_result_server_error: "response_result server_error = Inr JNull"
  by (simp add: response_result_def server_error_def is_success_def)

theorem get_data_fetch_failure_witness:
  "fetch_failed (response_result server_error) \<and>
   (\<exists>e. fst (get_data (GWNClient ''app'' ''sec'' ''https://eu.gwn.cloud'')
               (frozen_world (route (envelope [JObject [(''id'', JInt 7)]])
                                server_error (envelope [])))) = Inl e)"
proof -
  let ?srv = "route (envelope [JObject [(''id'', JInt 7)]]) server_error (envelope [])"
  let ?w1 = "\<lparr>clock = (\<lambda>n. 1000), ticks = 1, server = ?srv, sent = [auth_call logged_in]\<rparr>"
  obtain w2 where n: "get_networks logged_in ?w1 =
      (Inr (JObject [(''data'', JObject [(''result'', JList [JObject [(''id'', JInt 7)]])])]),
       logged_in, w2)"
    and w2: "clock w2 = (\<lambda>n. 1000)" "server w2 = ?srv"
    by (simp add: get_networks_logged_in [where networks = "envelope [JObject [(''id'', JInt 7)]]"
          and aps = server_error and clients = "envelope []"] response_result_envelope)
  obtain w3 where a: "get_access_points logged_in w2 (JInt 7) =
      (response_result server_error, logged_in, w3)"
    and w3: "clock w3 = (\<lambda>n. 1000)" "server w3 = ?srv"
    using w2 by (simp add: get_access_points_logged_in)
  obtain w4 where c: "get_client_List logged_in w3 (JInt 7) =
      (response_result (envelope []), logged_in, w4)"
    using w3 by (simp add: get_client_List_logged_in)
  have f: "fetch_failed (response_result server_error)"
    by (simp add: fetch_failed_def response_result_server_error)
  have t: "py_truthy (JObject [(''data'', JObject [(''result'', JList [JObject [(''id'', JInt 7)]])])])"
    by simp
  show ?thesis
    using get_data_fetch_failure [OF authenticate_fresh_client n t first_network_id_7 a c] f
    by blast
qed

text \<open>
  C6 as stated fails: when the access-point request gets a 500 response, the client list is
  still requested, and \<^verbatim>\<open>get_data\<close> ends in the \<^verbatim>\<open>AttributeError\<close> of calling
  \<^verbatim>\<open>get\<close> on \<^verbatim>\<open>None\<close>, which carries nothing of the failed response.
\<close>

theorem get_data_ap_fetch_failure_counterexample:
  "fst (get_data (GWNClient ''app'' ''sec'' ''https://eu.gwn.cloud'')
          (frozen_world (route (envelope [JObject [(''id'', JInt 7)]])
                           server_error (envelope []))))
     = Inl AttributeError \<and>
   map (\<lambda>c. case c of Post_json url headers query body \<Rightarrow> url | _ \<Rightarrow> [])
     (sent (snd (snd (get_data (GWNClient ''app'' ''sec'' ''https://eu.gwn.cloud'')
          (frozen_world (route (envelope [JObject [(''id'', JInt 7)]])
                           server_error (envelope [])))))))
     = [[], ''https://eu.gwn.cloud/oapi/v1.0.0/network/list'',
        ''https://eu.gwn.cloud/oapi/v1.0.0/ap/list'',
        ''https://eu.gwn.cloud/oapi/v1.0.0/client/list'']"
  by (simp add: get_data_def authenticate_fresh_client get_networks_logged_in
        get_access_points_logged_in get_client_List_logged_in
        response_result_envelope response_result_server_error first_network_id_7
        build_snapshot_None_aps auth_call_def)


section \<open>The join of clients and access points\<close>

lemma build_aps_map_Cons:
  "build_aps_map (a # aps) m0 =
     (case mac_key a of Inl e \<Rightarrow> Inl e | Inr k \<Rightarrow> build_aps_map aps (m0(k \<mapsto> a)))"
  by (simp add: mac_key_def split: sum.splits)

lemma build_aps_map_keys:
  "build_aps_map aps m0 = Inr m \<Longrightarrow> \<forall>a\<in>set aps. \<exists>k. mac_key a = Inr k"
proof (induction aps arbitrary: m0)
  case Nil
  then show ?case by simp
next
  case (Cons a aps)
  from Cons.prems obtain k where k: "mac_key a = Inr k"
    and r: "build_aps_map aps (m0(k \<mapsto> a)) = Inr m"
    by (auto simp: build_aps_map_Cons simp del: build_aps_map.simps split: sum.splits)
  from Cons.IH [OF r] k show ?case by auto
qed

lemma build_aps_map_total:
  "\<forall>a\<in>set aps. \<exists>k. mac_key a = Inr k \<Longrightarrow> \<exists>m. build_aps_map aps m0 = Inr m"
proof (induction aps arbitrary: m0)
  case Nil
  then show ?case by simp
next
  case (Cons a aps)
  then obtain k where k: "mac_key a = Inr k" by auto
  from Cons have "\<exists>m. build_aps_map aps (m0(k \<mapsto> a)) = Inr m" by simp
  then show ?case
    using k by (simp add: build_aps_map_Cons del: build_aps_map.simps)
qed

lemma build_aps_map_miss:
  "build_aps_map aps m0 = Inr m \<Longrightarrow> \<forall>a\<in>set aps. mac_key a \<noteq> Inr k \<Longrightarrow> m k = m0 k"
proof (induction aps arbitrary: m0)
  case Nil
  then show ?case by simp
next
  case (Cons a aps)
  from Cons.prems(1) obtain k' where k': "mac_key a = Inr k'"
    and r: "build_aps_map aps (m0(k' \<mapsto> a)) = Inr m"
    by (auto simp: build_aps_map_Cons simp del: build_aps_map.simps split: sum.splits)
  have "k' \<noteq> k" using Cons.prems(2) k' by auto
  moreover have "m k = (m0(k' \<mapsto> a)) k"
    using Cons.IH [OF r] Cons.prems(2) by simp
  ultimately show ?case by simp
qed

lemma build_aps_map_hit:
  "build_aps_map aps m0 = Inr m \<Longrightarrow> aps = pre @ ap # post \<Longrightarrow> mac_key ap = Inr k \<Longrightarrow>
     \<forall>a\<in>set post. mac_key a \<noteq> Inr k \<Longrightarrow> m k = Some ap"
proof (induction pre arbitrary: aps m0)
  case Nil
  then have "build_aps_map post (m0(k \<mapsto> ap)) = Inr m"
    by (simp add: build_aps_map_Cons del: build_aps_map.simps)
  from build_aps_map_miss [OF this Nil.prems(4)] show ?case
    by simp
next
  case (Cons x pre)
  then obtain m1 where "build_aps_map (pre @ ap # post) m1 = Inr m"
    by (auto simp: build_aps_map_Cons simp del: build_aps_map.simps split: sum.splits)
  from Cons.IH [OF this refl Cons.prems(3,4)] show ?case .
qed

lemma build_aps_map_objects:
  "build_aps_map aps m0 = Inr m \<Longrightarrow> \<forall>k v. m0 k = Some v \<longrightarrow> (\<exists>kvs. v = JObject kvs) \<Longrightarrow>
     m k = Some v \<Longrightarrow> \<exists>kvs. v = JObject kvs"
proof (induction aps arbitrary: m0)
  case Nil
  then show ?case by auto
next
  case (Cons a aps)
  from Cons.prems(1) obtain kvs k' where a: "a = JObject kvs"
    and b: "build_aps_map aps (m0(k' \<mapsto> a)) = Inr m"
    by (cases a) (auto split: sum.splits)
  have "\<forall>k v. (m0(k' \<mapsto> a)) k = Some v \<longrightarrow> (\<exists>kvs. v = JObject kvs)"
    using Cons.prems(2) a by auto
  from Cons.IH [OF b this Cons.prems(3)] show ?case .
qed

lemma normalize_clients_all2:
  "normalize_clients m cs acc = Inr ns \<Longrightarrow>
     \<exists>ns'. ns = acc @ ns' \<and> list_all2 (\<lambda>c n. normalize_client m c = Inr n) cs ns'"
proof (induction cs arbitrary: acc)
  case Nil
  then show ?case by simp
next
  case (Cons c cs)
  then obtain n where n: "normalize_client m c = Inr n"
    and r: "normalize_clients m cs (acc @ [n]) = Inr ns"
    by (auto split: sum.splits)
  from Cons.IH [OF r] obtain ns' where
    "ns = (acc @ [n]) @ ns'" "list_all2 (\<lambda>c n. normalize_client m c = Inr n) cs ns'"
    by blast
  then show ?case
    using n by (intro exI [of _ "n # ns'"]) simp
qed

lemma normalize_clients_total:
  "\<forall>c\<in>set cs. \<exists>n. normalize_client m c = Inr n \<Longrightarrow> \<exists>ns. normalize_clients m cs acc = Inr ns"
  by (induction cs arbitrary: acc) auto

lemma normalize_client_total:
  assumes "ap_id_key c = Inr k"
    and "\<forall>v. m k = Some v \<longrightarrow> (\<exists>kvs. v = JObject kvs)"
  shows "\<exists>n. normalize_client m c = Inr n"
proof -
  from assms(1) obtain kvs where c: "c = JObject kvs"
    and k: "py_key (dict_get kvs ''apId'' (JStr [])) = Inr k"
    by (cases c) (auto simp: ap_id_key_def)
  show ?thesis
  proof (cases "m k")
    case None
    then show ?thesis using c k by (simp add: Let_def)
  next
    case (Some ap)
    with assms(2) obtain akvs where "ap = JObject akvs" by blast
    then show ?thesis using c k Some by (simp add: Let_def)
  qed
qed

lemma normalize_client_ap_name:
  assumes "normalize_client m c = Inr n"
  shows "\<exists>k. ap_id_key c = Inr k \<and>
           py_getitem n ''ap_name'' =
             py_get (case m k of Some ap \<Rightarrow> ap | None \<Rightarrow> JObject []) ''name''
               (case py_get c ''apName'' (JStr ''Unknown'') of Inr v \<Rightarrow> v | Inl e \<Rightarrow> JNull)"
proof -
  from assms obtain kvs where c: "c = JObject kvs"
    by (cases c) auto
  with assms obtain k where k: "py_key (dict_get kvs ''apId'' (JStr [])) = Inr k"
    by (auto simp: Let_def split: sum.splits)
  show ?thesis
    using assms c k
    by (intro exI [of _ k]) (auto simp: Let_def ap_id_key_def split: sum.splits)
qed


lemma py_getitem_get: "py_getitem j k = Inr v \<Longrightarrow> py_get j k d = Inr v"
  by (cases j) (auto simp: dict_get_def split: option.splits)

text \<open>A snapshot is built only from records that are dicts with hashable keys: the
  hypotheses of the next theorem hold whenever \<^verbatim>\<open>get_data\<close> gets as far as a snapshot.\<close>

lemma build_snapshot_wellformed:
  assumes "build_snapshot aps_data clients_data = Inr v"
  shows "\<exists>aps_list aps clients_list cs.
           result_list aps_data = Inr aps_list \<and> py_iter aps_list = Inr aps \<and>
           result_list clients_data = Inr clients_list \<and> py_iter clients_list = Inr cs \<and>
           (\<forall>a\<in>set aps. \<exists>k. mac_key a = Inr k) \<and>
           (\<forall>c\<in>set cs. \<exists>k. ap_id_key c = Inr k)"
proof -
  from assms obtain aps_list aps m clients_list cs ns where
    r: "result_list aps_data = Inr aps_list" "py_iter aps_list = Inr aps"
       "build_aps_map aps Map.empty = Inr m"
       "result_list clients_data = Inr clients_list" "py_iter clients_list = Inr cs"
       "normalize_clients m cs [] = Inr ns"
    by (auto simp: build_snapshot_def split: sum.splits)
  from normalize_clients_all2 [OF r(6)] have
    all2: "list_all2 (\<lambda>c n. normalize_client m c = Inr n) cs ns"
    by simp
  have "\<exists>k. ap_id_key c = Inr k" if "c \<in> set cs" for c
  proof -
    from that obtain i where "i < length cs" "c = cs ! i"
      by (auto simp: in_set_conv_nth)
    with list_all2_nthD [OF all2, of i] have "normalize_client m c = Inr (ns ! i)"
      by simp
    from normalize_client_ap_name [OF this] show ?thesis by blast
  qed
  with r build_aps_map_keys [OF r(3)] show ?thesis by blast
qed

text \<open>
  C7. For access-point and client records that are dicts with hashable \<^verbatim>\<open>mac\<close> and
  \<^verbatim>\<open>apId\<close>, the join raises nothing and yields one normalized record per client, in order.
  The \<^verbatim>\<open>ap_name\<close> of a client is the name of the access point of the same AP list whose
  mac equals the client's \<^verbatim>\<open>apId\<close> (the last such entry of the list, should the list
  repeat a mac), when there is one and it has a name; when no access point has that mac,
  \<^verbatim>\<open>ap_name\<close> is the client's own \<^verbatim>\<open>apName\<close> if present, else \<^verbatim>\<open>"Unknown"\<close>.
\<close>

theorem client_ap_name_resolution:
  assumes "result_list aps_data = Inr aps_list" and "py_iter aps_list = Inr aps"
    and "result_list clients_data = Inr clients_list" and "py_iter clients_list = Inr cs"
    and "\<forall>a\<in>set aps. \<exists>k. mac_key a = Inr k"
    and "\<forall>c\<in>set cs. \<exists>k. ap_id_key c = Inr k"
  shows "\<exists>ns. build_snapshot aps_data clients_data
                = Inr (JObject [(''aps'', aps_list), (''clients'', JList ns)]) \<and>
              length ns = length cs \<and>
              (\<forall>i<length cs.
                 (\<forall>pre ap post n.
                    aps = pre @ ap # post \<longrightarrow>
                    mac_key ap = ap_id_key (cs ! i) \<longrightarrow>
                    (\<forall>a\<in>set post. mac_key a \<noteq> ap_id_key (cs ! i)) \<longrightarrow>
                    py_getitem ap ''name'' = Inr n \<longrightarrow>
                    py_getitem (ns ! i) ''ap_name'' = Inr n) \<and>
                 ((\<forall>a\<in>set aps. mac_key a \<noteq> ap_id_key (cs ! i)) \<longrightarrow>
                    py_getitem (ns ! i) ''ap_name''
                      = py_get (cs ! i) ''apName'' (JStr ''Unknown'')))"
proof -
  from build_aps_map_total [OF assms(5)] obtain m where
    m: "build_aps_map aps Map.empty = Inr m"
    by blast
  have objs: "\<forall>v. m k = Some v \<longrightarrow> (\<exists>kvs. v = JObject kvs)" for k
    using build_aps_map_objects [OF m] by auto
  have "\<forall>c\<in>set cs. \<exists>n. normalize_client m c = Inr n"
    using assms(6) normalize_client_total objs by blast
  from normalize_clients_total [OF this] obtain ns where
    ns: "normalize_clients m cs [] = Inr ns"
    by blast
  from normalize_clients_all2 [OF ns] have
    all2: "list_all2 (\<lambda>c n. normalize_client m c = Inr n) cs ns"
    by simp
  have snap: "build_snapshot aps_data clients_data
                = Inr (JObject [(''aps'', aps_list), (''clients'', JList ns)])"
    using assms(1-4) m ns by (simp add: build_snapshot_def)
  have len: "length ns = length cs"
    using all2 by (simp add: list_all2_lengthD)
  have res: "(\<forall>pre ap post n.
                aps = pre @ ap # post \<longrightarrow>
                mac_key ap = ap_id_key (cs ! i) \<longrightarrow>
                (\<forall>a\<in>set post. mac_key a \<noteq> ap_id_key (cs ! i)) \<longrightarrow>
                py_getitem ap ''name'' = Inr n \<longrightarrow>
                py_getitem (ns ! i) ''ap_name'' = Inr n) \<and>
             ((\<forall>a\<in>set aps. mac_key a \<noteq> ap_id_key (cs ! i)) \<longrightarrow>
                py_getitem (ns ! i) ''ap_name''
                  = py_get (cs ! i) ''apName'' (JStr ''Unknown''))"
    if i: "i < length cs" for i
  proof -
    have nc: "normalize_client m (cs ! i) = Inr (ns ! i)"
      using list_all2_nthD [OF all2 i] by simp
    from normalize_client_ap_name [OF nc] obtain k where
      k: "ap_id_key (cs ! i) = Inr k"
      and name: "py_getitem (ns ! i) ''ap_name'' =
             py_get (case m k of Some ap \<Rightarrow> ap | None \<Rightarrow> JObject []) ''name''
               (case py_get (cs ! i) ''apName'' (JStr ''Unknown'') of
                  Inr v \<Rightarrow> v | Inl e \<Rightarrow> JNull)"
      by blast
    from nc obtain ckvs where c: "cs ! i = JObject ckvs"
      by (cases "cs ! i") auto
    have hit: "py_getitem (ns ! i) ''ap_name'' = Inr n"
      if "aps = pre @ ap # post" "mac_key ap = ap_id_key (cs ! i)"
        "\<forall>a\<in>set post. mac_key a \<noteq> ap_id_key (cs ! i)" "py_getitem ap ''name'' = Inr n"
      for pre ap post n
    proof -
      have "m k = Some ap"
        using build_aps_map_hit [OF m that(1)] that(2,3) k by simp
      then show ?thesis
        using name py_getitem_get [OF that(4)] by simp
    qed
    have miss: "py_getitem (ns ! i) ''ap_name'' = py_get (cs ! i) ''apName'' (JStr ''Unknown'')"
      if "\<forall>a\<in>set aps. mac_key a \<noteq> ap_id_key (cs ! i)"
    proof -
      have "m k = None"
        using build_aps_map_miss [OF m, of k] that k by simp
      then show ?thesis
        using name c by (simp add: dict_get_def)
    qed
    from hit miss show ?thesis by blast
  qed
  from snap len res show ?thesis by blast
qed

theorem client_ap_name_resolution_witness:
  "\<exists>ns. build_snapshot lobby_aps two_clients
           = Inr (JObject [(''aps'', JList [JObject [(''mac'', JStr ''A1''),
                                                      (''name'', JStr ''Lobby'')]]),
                           (''clients'', JList ns)]) \<and>
         length ns = 2 \<and>
         py_getitem (ns ! 0) ''ap_name'' = Inr (JStr ''Lobby'') \<and>
         py_getitem (ns ! 1) ''ap_name'' = Inr (JStr ''Legacy'')"
proof -
  let ?ap = "JObject [(''mac'', JStr ''A1''), (''name'', JStr ''Lobby'')]"
  let ?c1 = "JObject [(''clientId'', JStr ''C1''), (''apId'', JStr ''A1''), (''name'', JStr ''Phone'')]"
  let ?c2 = "JObject [(''clientId'', JStr ''C2''), (''apId'', JStr ''B2''), (''apName'', JStr ''Legacy'')]"
  have h: "result_list lobby_aps = Inr (JList [?ap])" "py_iter (JList [?ap]) = Inr [?ap]"
    "result_list two_clients = Inr (JList [?c1, ?c2])"
    "py_iter (JList [?c1, ?c2]) = Inr [?c1, ?c2]"
    "\<forall>a\<in>set [?ap]. \<exists>k. mac_key a = Inr k"
    "\<forall>c\<in>set [?c1, ?c2]. \<exists>k. ap_id_key c = Inr k"
    by (simp_all add: lobby_aps_def two_clients_def result_list_def dict_get_def mac_key_def
          ap_id_key_def)
  from client_ap_name_resolution [OF h] obtain ns where
    snap: "build_snapshot lobby_aps two_clients
             = Inr (JObject [(''aps'', JList [?ap]), (''clients'', JList ns)])"
    and len: "length ns = length [?c1, ?c2]"
    and res: "\<forall>i<length [?c1, ?c2].
                 (\<forall>pre ap post n.
                    [?ap] = pre @ ap # post \<longrightarrow>
                    mac_key ap = ap_id_key ([?c1, ?c2] ! i) \<longrightarrow>
                    (\<forall>a\<in>set post. mac_key a \<noteq> ap_id_key ([?c1, ?c2] ! i)) \<longrightarrow>
                    py_getitem ap ''name'' = Inr n \<longrightarrow>
                    py_getitem (ns ! i) ''ap_name'' = Inr n) \<and>
                 ((\<forall>a\<in>set [?ap]. mac_key a \<noteq> ap_id_key ([?c1, ?c2] ! i)) \<longrightarrow>
                    py_getitem (ns ! i) ''ap_name''
                      = py_get ([?c1, ?c2] ! i) ''apName'' (JStr ''Unknown''))"
    by blast
  have keys: "mac_key ?ap = Inr (JStr ''A1'')" "ap_id_key ?c1 = Inr (JStr ''A1'')"
    "ap_id_key ?c2 = Inr (JStr ''B2'')"
    by (simp_all add: mac_key_def ap_id_key_def dict_get_def)
  from res have "\<forall>pre ap post n.
                    [?ap] = pre @ ap # post \<longrightarrow>
                    mac_key ap = ap_id_key ([?c1, ?c2] ! 0) \<longrightarrow>
                    (\<forall>a\<in>set post. mac_key a \<noteq> ap_id_key ([?c1, ?c2] ! 0)) \<longrightarrow>
                    py_getitem ap ''name'' = Inr n \<longrightarrow>
                    py_getitem (ns ! 0) ''ap_name'' = Inr n"
    by simp
  from this [rule_format, of "[]" ?ap "[]" "JStr ''Lobby''"]
  have first: "py_getitem (ns ! 0) ''ap_name'' = Inr (JStr ''Lobby'')"
    by (simp add: keys)
  from res have "(\<forall>a\<in>set [?ap]. mac_key a \<noteq> ap_id_key ([?c1, ?c2] ! 1)) \<longrightarrow>
                    py_getitem (ns ! 1) ''ap_name''
                      = py_get ([?c1, ?c2] ! 1) ''apName'' (JStr ''Unknown'')"
    by simp
  then have second: "py_getitem (ns ! 1) ''ap_name'' = Inr (JStr ''Legacy'')"
    by (simp add: keys dict_get_def)
  from snap len first second show ?thesis
    by (intro exI [of _ ns]) simp
qed


section \<open>The normalized client record\<close>

text \<open>
  C8 (as amended). Every normalized client record holds \<^verbatim>\<open>mac\<close> (the vendor's
  \<^verbatim>\<open>clientId\<close>, default empty), \<^verbatim>\<open>name\<close> (default \<^verbatim>\<open>"Unknown"\<close>), \<^verbatim>\<open>ipv4\<close>,
  \<^verbatim>\<open>ipv6\<close> and \<^verbatim>\<open>ssid\<close> (default empty), \<^verbatim>\<open>ap_mac\<close> (the \<^verbatim>\<open>apId\<close>, default
  empty), the resolved \<^verbatim>\<open>ap_name\<close>, \<^verbatim>\<open>rssi\<close> (default \<^verbatim>\<open>None\<close>), and \<^verbatim>\<open>online\<close>,
  \<^verbatim>\<open>tx_bytes\<close>, \<^verbatim>\<open>rx_bytes\<close>, \<^verbatim>\<open>tx_rate\<close>, \<^verbatim>\<open>rx_rate\<close> (default 0).
\<close>

theorem normalize_client_fields:
  assumes "normalize_client aps_map client = Inr n"
  shows "\<exists>c. client = JObject c \<and>
           py_getitem n ''mac'' = Inr (dict_get c ''clientId'' (JStr [])) \<and>
           py_getitem n ''name'' = Inr (dict_get c ''name'' (JStr ''Unknown'')) \<and>
           py_getitem n ''ipv4'' = Inr (dict_get c ''ipv4'' (JStr [])) \<and>
           py_getitem n ''ipv6'' = Inr (dict_get c ''ipv6'' (JStr [])) \<and>
           py_getitem n ''ap_mac'' = Inr (dict_get c ''apId'' (JStr [])) \<and>
           (\<exists>ap_name. py_getitem n ''ap_name'' = Inr ap_name) \<and>
           py_getitem n ''rssi'' = Inr (dict_get c ''rssi'' JNull) \<and>
           py_getitem n ''ssid'' = Inr (dict_get c ''ssid'' (JStr [])) \<and>
           py_getitem n ''online'' = Inr (dict_get c ''online'' (JInt 0)) \<and>
           py_getitem n ''tx_bytes'' = Inr (dict_get c ''txBytes'' (JInt 0)) \<and>
           py_getitem n ''rx_bytes'' = Inr (dict_get c ''rxBytes'' (JInt 0)) \<and>
           py_getitem n ''tx_rate'' = Inr (dict_get c ''txRate'' (JInt 0)) \<and>
           py_getitem n ''rx_rate'' = Inr (dict_get c ''rxRate'' (JInt 0))"
proof -
  from assms obtain c where c: "client = JObject c"
    by (cases client) auto
  show ?thesis
    using assms unfolding c
    by (intro exI [of _ c]) (auto simp: Let_def split: sum.splits)
qed

lemma normalize_bare_client:
  "normalize_client Map.empty bare_client =
     Inr (JObject
       [(''mac'', JStr ''C1''),
        (''name'', JStr ''Unknown''),
        (''ipv4'', JStr []),
        (''ipv6'', JStr []),
        (''ap_mac'', JStr []),
        (''ap_name'', JStr ''Unknown''),
        (''rssi'', JNull),
        (''ssid'', JStr []),
        (''online'', JInt 0),
        (''tx_bytes'', JInt 512),
        (''rx_bytes'', JInt 0),
        (''tx_rate'', JInt 0),
        (''rx_rate'', JInt 0)])"
  by (simp add: bare_client_def dict_get_def Let_def)

theorem normalize_client_fields_witness:
  "\<exists>n. normalize_client Map.empty bare_client = Inr n \<and>
        py_getitem n ''mac'' = Inr (JStr ''C1'') \<and>
        py_getitem n ''name'' = Inr (JStr ''Unknown'') \<and>
        py_getitem n ''rssi'' = Inr JNull \<and>
        py_getitem n ''tx_bytes'' = Inr (JInt 512) \<and>
        py_getitem n ''rx_bytes'' = Inr (JInt 0)"
proof -
  let ?n = "JObject
       [(''mac'', JStr ''C1''),
        (''name'', JStr ''Unknown''),
        (''ipv4'', JStr []),
        (''ipv6'', JStr []),
        (''ap_mac'', JStr []),
        (''ap_name'', JStr ''Unknown''),
        (''rssi'', JNull),
        (''ssid'', JStr []),
        (''online'', JInt 0),
        (''tx_bytes'', JInt 512),
        (''rx_bytes'', JInt 0),
        (''tx_rate'', JInt 0),
        (''rx_rate'', JInt 0)]"
  from normalize_client_fields [OF normalize_bare_client] obtain c where
    c: "bare_client = JObject c"
    and f: "py_getitem ?n ''mac'' = Inr (dict_get c ''clientId'' (JStr []))"
      "py_getitem ?n ''name'' = Inr (dict_get c ''name'' (JStr ''Unknown''))"
      "py_getitem ?n ''rssi'' = Inr (dict_get c ''rssi'' JNull)"
      "py_getitem ?n ''tx_bytes'' = Inr (dict_get c ''txBytes'' (JInt 0))"
      "py_getitem ?n ''rx_bytes'' = Inr (dict_get c ''rxBytes'' (JInt 0))"
    by blast
  from c have c': "c = [(''clientId'', JStr ''C1''), (''txBytes'', JInt 512)]"
    by (simp add: bare_client_def)
  have "dict_get c ''clientId'' (JStr []) = JStr ''C1''"
    "dict_get c ''name'' (JStr ''Unknown'') = JStr ''Unknown''"
    "dict_get c ''rssi'' JNull = JNull"
    "dict_get c ''txBytes'' (JInt 0) = JInt 512"
    "dict_get c ''rxBytes'' (JInt 0) = JInt 0"
    unfolding c' by (simp_all add: dict_get_def)
  with f normalize_bare_client show ?thesis
    by (intro exI [of _ ?n]) metis
qed

text \<open>
  C8 as stated fails: a missing signal strength is \<^verbatim>\<open>None\<close>, not 0, and the record has
  no field for the channel class, the vlan id or the last-active time (the keys
  \<^verbatim>\<open>channelClassStr\<close>, \<^verbatim>\<open>vid\<close> and \<^verbatim>\<open>lastactive\<close> that \<^verbatim>\<open>sensor.py\<close> reads).
\<close>

theorem normalize_client_shape_counterexample:
  "(case normalize_client Map.empty bare_client of
      Inl e \<Rightarrow> []
    | Inr n \<Rightarrow> [py_getitem n ''rssi'', py_getitem n ''channelClassStr'',
                py_getitem n ''vid'', py_getitem n ''lastactive'']) =
   [Inr JNull, Inl KeyError, Inl KeyError, Inl KeyError] \<and>
   (case normalize_client Map.empty bare_client of
      Inl e \<Rightarrow> []
    | Inr n \<Rightarrow> (case n of JObject kvs \<Rightarrow> map fst kvs | _ \<Rightarrow> [])) =
   [''mac'', ''name'', ''ipv4'', ''ipv6'', ''ap_mac'', ''ap_name'', ''rssi'', ''ssid'',
    ''online'', ''tx_bytes'', ''rx_bytes'', ''tx_rate'', ''rx_rate'']"
  by (simp add: bare_client_def dict_get_def Let_def)


end
